theory Spec2Isabelle
  imports Complex_Main "HOL-Library.Char_ord" "HOL-Library.List_Lexorder"
begin

section \<open>Floating-point values of the data frames\<close>

text \<open>
  The analysis code computes on pandas/numpy float64 columns. A division by zero there
  raises nothing: it yields an infinity or NaN, which then flows through every later
  operation. The model keeps exactly that: a value is a finite real, one of the two
  infinities, or NaN, and the operations follow the IEEE 754 rules for the special values.
  Finite results are exact reals: rounding error, overflow and the sign of zero are not
  part of the model.
\<close>

datatype fl = Fin real | PInf | NInf | NaN

fun is_fin :: "fl \<Rightarrow> bool" where
  "is_fin (Fin _) = True"
| "is_fin _ = False"

fun fl_neg :: "fl \<Rightarrow> fl" where
  "fl_neg (Fin a) = Fin (- a)"
| "fl_neg PInf = NInf"
| "fl_neg NInf = PInf"
| "fl_neg NaN = NaN"

fun fl_abs :: "fl \<Rightarrow> fl" where
  "fl_abs (Fin a) = Fin \<bar>a\<bar>"
| "fl_abs PInf = PInf"
| "fl_abs NInf = PInf"
| "fl_abs NaN = NaN"

fun fl_add :: "fl \<Rightarrow> fl \<Rightarrow> fl" where
  "fl_add (Fin a) (Fin b) = Fin (a + b)"
| "fl_add NaN _ = NaN"
| "fl_add _ NaN = NaN"
| "fl_add PInf NInf = NaN"
| "fl_add NInf PInf = NaN"
| "fl_add PInf _ = PInf"
| "fl_add _ PInf = PInf"
| "fl_add NInf _ = NInf"
| "fl_add _ NInf = NInf"

definition fl_sub :: "fl \<Rightarrow> fl \<Rightarrow> fl" where
  "fl_sub a b = fl_add a (fl_neg b)"

text \<open>The sign of a value: \<open>1\<close>, \<open>-1\<close>, or \<open>0\<close> for zero (and for NaN, never used).\<close>

fun fl_sgn :: "fl \<Rightarrow> int" where
  "fl_sgn (Fin a) = (if a > 0 then 1 else if a < 0 then - 1 else 0)"
| "fl_sgn PInf = 1"
| "fl_sgn NInf = - 1"
| "fl_sgn NaN = 0"

definition inf_of_sign :: "int \<Rightarrow> fl" where
  "inf_of_sign s = (if s = 0 then NaN else if s > 0 then PInf else NInf)"

fun fl_mul :: "fl \<Rightarrow> fl \<Rightarrow> fl" where
  "fl_mul (Fin a) (Fin b) = Fin (a * b)"
| "fl_mul NaN _ = NaN"
| "fl_mul _ NaN = NaN"
| "fl_mul a b = inf_of_sign (fl_sgn a * fl_sgn b)"

text \<open>
  Division: a finite non-zero value over zero is an infinity of the dividend's sign,
  zero over zero is NaN, a finite value over an infinity is zero.
\<close>

fun fl_div :: "fl \<Rightarrow> fl \<Rightarrow> fl" where
  "fl_div (Fin a) (Fin b) = (if b = 0 then inf_of_sign (fl_sgn (Fin a)) else Fin (a / b))"
| "fl_div NaN _ = NaN"
| "fl_div _ NaN = NaN"
| "fl_div (Fin a) _ = Fin 0"
| "fl_div PInf (Fin b) = (if b < 0 then NInf else PInf)"
| "fl_div NInf (Fin b) = (if b < 0 then PInf else NInf)"
| "fl_div _ _ = NaN"

fun fl_sqrt :: "fl \<Rightarrow> fl" where
  "fl_sqrt (Fin a) = (if a < 0 then NaN else Fin (sqrt a))"
| "fl_sqrt PInf = PInf"
| "fl_sqrt NInf = NaN"
| "fl_sqrt NaN = NaN"

text \<open>Comparisons: every comparison with NaN is false.\<close>

fun fl_less :: "fl \<Rightarrow> fl \<Rightarrow> bool" where
  "fl_less (Fin a) (Fin b) = (a < b)"
| "fl_less NaN _ = False"
| "fl_less _ NaN = False"
| "fl_less _ NInf = False"
| "fl_less PInf _ = False"
| "fl_less _ _ = True"

definition fl_greater :: "fl \<Rightarrow> fl \<Rightarrow> bool" where
  "fl_greater a b = fl_less b a"

fun fl_le :: "fl \<Rightarrow> fl \<Rightarrow> bool" where
  "fl_le (Fin a) (Fin b) = (a \<le> b)"
| "fl_le NaN _ = False"
| "fl_le _ NaN = False"
| "fl_le NInf _ = True"
| "fl_le _ PInf = True"
| "fl_le _ _ = False"

definition fl_ge :: "fl \<Rightarrow> fl \<Rightarrow> bool" where
  "fl_ge a b = fl_le b a"

text \<open>\<open>Series.fillna(0)\<close>: NaN becomes 0, everything else (infinities too) stays.\<close>

fun fillna0 :: "fl \<Rightarrow> fl" where
  "fillna0 NaN = Fin 0"
| "fillna0 v = v"

section \<open>Samples and derived utilization records\<close>

text \<open>
  One row of the sample store. The collector writes the resource counters as integers.
  The three \<open>stored_*\<close> fields are the utilization columns of the store itself:
  \<open>None\<close> when the store has no such column, so that the analyzer computes it.
  Timestamps are seconds on the wall clock.
\<close>

record sample =
  timestamp :: int
  node :: string
  vcpus_used :: int
  vcpus_total :: int
  memory_used_mb :: int
  memory_total_mb :: int
  disk_used_gb :: int
  disk_total_gb :: int
  instances :: int
  total_instance_vcpus :: int
  total_instance_memory_mb :: int
  stored_cpu_utilization :: "fl option"
  stored_memory_utilization :: "fl option"
  stored_disk_utilization :: "fl option"

record urecord =
  smp :: sample
  cpu_utilization :: fl
  memory_utilization :: fl
  disk_utilization :: fl
  cpu_efficiency :: fl
  memory_efficiency :: fl
  cpu_waste :: fl
  memory_waste :: fl

text \<open>\<open>(df[used] / df[total] * 100).fillna(0)\<close> on two integer columns, for one row.\<close>

definition ratio_pct :: "int \<Rightarrow> int \<Rightarrow> fl" where
  "ratio_pct used tot =
     fillna0 (fl_mul (fl_div (Fin (of_int used)) (Fin (of_int tot))) (Fin 100))"

text \<open>\<open>MetricsAnalyzer.calculate_utilization_metrics\<close>, row by row.\<close>

definition calculate_utilization_metrics :: "sample \<Rightarrow> urecord" where
  "calculate_utilization_metrics s =
     (let cpu = (case stored_cpu_utilization s of
                   None \<Rightarrow> ratio_pct (vcpus_used s) (vcpus_total s) | Some v \<Rightarrow> v);
          mem = (case stored_memory_utilization s of
                   None \<Rightarrow> ratio_pct (memory_used_mb s) (memory_total_mb s) | Some v \<Rightarrow> v);
          dsk = (case stored_disk_utilization s of
                   None \<Rightarrow> ratio_pct (disk_used_gb s) (disk_total_gb s) | Some v \<Rightarrow> v);
          cpu_eff = ratio_pct (total_instance_vcpus s) (vcpus_total s);
          mem_eff = ratio_pct (total_instance_memory_mb s) (memory_total_mb s)
      in \<lparr> smp = s, cpu_utilization = cpu, memory_utilization = mem, disk_utilization = dsk,
           cpu_efficiency = cpu_eff, memory_efficiency = mem_eff,
           cpu_waste = fl_sub cpu cpu_eff, memory_waste = fl_sub mem mem_eff \<rparr>)"

text \<open>
  The collector's own computation of the same percentage
  (\<open>(used / total * 100) if total > 0 else 0\<close> on Python numbers).
\<close>

definition collector_util :: "int \<Rightarrow> int \<Rightarrow> fl" where
  "collector_util used tot =
     (if tot > 0 then Fin (of_int used / of_int tot * 100) else Fin 0)"

text \<open>A sample without stored utilization columns, for concrete evaluations.\<close>

definition mk_sample :: "int \<Rightarrow> string \<Rightarrow> int \<Rightarrow> int \<Rightarrow> int \<Rightarrow> int \<Rightarrow> int \<Rightarrow> int \<Rightarrow> sample" where
  "mk_sample t n cu ct mu mt du dt =
     \<lparr> timestamp = t, node = n, vcpus_used = cu, vcpus_total = ct,
       memory_used_mb = mu, memory_total_mb = mt, disk_used_gb = du, disk_total_gb = dt,
       instances = 0, total_instance_vcpus = 0, total_instance_memory_mb = 0,
       stored_cpu_utilization = None, stored_memory_utilization = None,
       stored_disk_utilization = None \<rparr>"

section \<open>Node summary: risk tiers\<close>

datatype risk = High | Medium | Low

text \<open>\<open>lambda x: 'High' if x > 80 else 'Medium' if x > 60 else 'Low'\<close>\<close>

definition risk_of :: "fl \<Rightarrow> risk" where
  "risk_of x = (if fl_greater x (Fin 80) then High
                else if fl_greater x (Fin 60) then Medium else Low)"

text \<open>The \<open>overall_risk\<close> lambda of \<open>generate_node_summary\<close>; \<open>any\<close> over the three risks.\<close>

definition overall_risk :: "risk \<Rightarrow> risk \<Rightarrow> risk \<Rightarrow> risk" where
  "overall_risk cpu_risk memory_risk disk_risk =
     (if list_ex (\<lambda>r. r = High) [cpu_risk, memory_risk, disk_risk] then High
      else if list_ex (\<lambda>r. r = Medium) [cpu_risk, memory_risk, disk_risk] then Medium
      else Low)"

text \<open>Severity order High > Medium > Low, as a rank, and the worst of two risks.\<close>

fun severity :: "risk \<Rightarrow> nat" where
  "severity Low = 0"
| "severity Medium = 1"
| "severity High = 2"

definition worst :: "risk \<Rightarrow> risk \<Rightarrow> risk" where
  "worst a b = (if severity a \<ge> severity b then a else b)"

section \<open>Capacity analyzer\<close>

definition node_of :: "urecord \<Rightarrow> string" where
  "node_of r = node (smp r)"



text \<open>The rows of one node, in store order, and the group keys (\<open>groupby\<close> sorts them).\<close>

definition rows_of :: "urecord list \<Rightarrow> string \<Rightarrow> urecord list" where
  "rows_of df n = filter (\<lambda>r. node_of r = n) df"

definition group_keys :: "urecord list \<Rightarrow> string list" where
  "group_keys df = sort (remdups (map node_of df))"


text \<open>
  \<open>round(x, 2)\<close> on a float: to the nearest multiple of 0.01, a tie going to the even
  neighbour; infinities and NaN are returned as they are.
\<close>

definition round_half_even :: "real \<Rightarrow> int" where
  "round_half_even y =
     (let f = \<lfloor>y\<rfloor>; d = y - of_int f
      in if d < 1 / 2 then f else if d > 1 / 2 then f + 1
         else if even f then f else f + 1)"

definition round2 :: "real \<Rightarrow> real" where
  "round2 x = of_int (round_half_even (x * 100)) / 100"

fun fl_round2 :: "fl \<Rightarrow> fl" where
  "fl_round2 (Fin x) = Fin (round2 x)"
| "fl_round2 v = v"






















section \<open>Series statistics\<close>

text \<open>
  pandas reductions skip NaN (\<open>skipna=True\<close>): \<open>mean\<close>, \<open>max\<close> and \<open>std\<close> are taken over
  the values that are not NaN and are NaN when none is left (\<open>std\<close>: when fewer than two).
  \<open>np.mean\<close> applied to a Series is the Series' own \<open>mean\<close>.
\<close>

fun fl_sum :: "fl list \<Rightarrow> fl" where
  "fl_sum [] = Fin 0"
| "fl_sum (x # xs) = fl_add x (fl_sum xs)"

definition dropna :: "fl list \<Rightarrow> fl list" where
  "dropna xs = filter (\<lambda>v. v \<noteq> NaN) xs"

definition fl_max :: "fl \<Rightarrow> fl \<Rightarrow> fl" where
  "fl_max a b = (if fl_less a b then b else a)"

definition series_max :: "fl list \<Rightarrow> fl" where
  "series_max xs = (case dropna xs of [] \<Rightarrow> NaN | y # ys \<Rightarrow> foldl fl_max y ys)"

definition series_mean :: "fl list \<Rightarrow> fl" where
  "series_mean xs =
     (let ys = dropna xs
      in if ys = [] then NaN else fl_div (fl_sum ys) (Fin (real (length ys))))"

definition series_std :: "fl list \<Rightarrow> fl" where
  "series_std xs =
     (let ys = dropna xs; n = length ys
      in if n \<le> 1 then NaN
         else let avg = fl_div (fl_sum ys) (Fin (real n));
                  sqr = map (\<lambda>v. fl_mul (fl_sub avg v) (fl_sub avg v)) ys
              in fl_sqrt (fl_div (fl_sum sqr) (Fin (real (n - 1)))))"

text \<open>\<open>Series.unique()\<close>: the distinct values, in order of first appearance.\<close>

fun unique :: "'a list \<Rightarrow> 'a list" where
  "unique [] = []"
| "unique (x # xs) = x # unique (filter (\<lambda>y. y \<noteq> x) xs)"

section \<open>Recommendation generator\<close>

text \<open>A row of the forecast table, as far as the recommendation generator reads it.\<close>

record forecast_row =
  f_timestamp :: int
  f_node :: string
  f_metric :: string
  f_forecast :: fl

text \<open>
  A recommendation. The \<open>message\<close> (the value formatted into a sentence) is left out;
  \<open>rc_value\<close> is \<open>max_predicted_value\<close> for Critical and High and \<open>avg_predicted_value\<close>
  for Medium.
\<close>

record recommendation =
  rc_node :: string
  rc_metric :: string
  rc_severity :: string
  rc_action :: string
  rc_value :: fl

text \<open>The \<open>if / elif / elif\<close> chain for one (node, metric) pair.\<close>

definition classify :: "string \<Rightarrow> string \<Rightarrow> fl list \<Rightarrow> recommendation list" where
  "classify n m vals =
     (let max_forecast = series_max vals; avg_forecast = series_mean vals
      in if fl_greater max_forecast (Fin 90) then
           [\<lparr> rc_node = n, rc_metric = m, rc_severity = ''Critical'',
              rc_action = ''Add capacity or migrate instances immediately'',
              rc_value = max_forecast \<rparr>]
         else if fl_greater max_forecast (Fin 80) then
           [\<lparr> rc_node = n, rc_metric = m, rc_severity = ''High'',
              rc_action = ''Plan capacity increase within 1-2 days'',
              rc_value = max_forecast \<rparr>]
         else if fl_greater avg_forecast (Fin 70) then
           [\<lparr> rc_node = n, rc_metric = m, rc_severity = ''Medium'',
              rc_action = ''Monitor trends and plan for future capacity needs'',
              rc_value = avg_forecast \<rparr>]
         else [])"

text \<open>
  \<open>UsageForecaster.generate_capacity_recommendations\<close>; \<open>current_time\<close> is the clock
  reading \<open>datetime.now()\<close>.
\<close>

definition generate_capacity_recommendations ::
    "forecast_row list \<Rightarrow> int \<Rightarrow> recommendation list" where
  "generate_capacity_recommendations forecasts current_time =
     (if forecasts = [] then []
      else let future_forecasts = filter (\<lambda>r. f_timestamp r > current_time) forecasts
           in concat (map (\<lambda>n.
                let node_forecasts = filter (\<lambda>r. f_node r = n) future_forecasts
                in concat (map (\<lambda>m.
                     let metric_forecasts = filter (\<lambda>r. f_metric r = m) node_forecasts
                     in classify n m (map f_forecast metric_forecasts))
                   (unique (map f_metric node_forecasts))))
              (unique (map f_node future_forecasts))))"

text \<open>The forecast values of one (node, metric) pair strictly after the current time.\<close>

definition pair_values :: "forecast_row list \<Rightarrow> int \<Rightarrow> string \<Rightarrow> string \<Rightarrow> fl list" where
  "pair_values forecasts current_time n m =
     map f_forecast
       (filter (\<lambda>r. f_timestamp r > current_time \<and> f_node r = n \<and> f_metric r = m) forecasts)"

definition recs_for :: "recommendation list \<Rightarrow> string \<Rightarrow> string \<Rightarrow> recommendation list" where
  "recs_for recs n m = filter (\<lambda>r. rc_node r = n \<and> rc_metric r = m) recs"

text \<open>The inner loop of the generator, over the metrics of one node.\<close>

definition inner_recs :: "forecast_row list \<Rightarrow> string \<Rightarrow> recommendation list" where
  "inner_recs fut n =
     concat (map (\<lambda>m. classify n m (map f_forecast
                        (filter (\<lambda>r. f_metric r = m) (filter (\<lambda>r. f_node r = n) fut))))
       (unique (map f_metric (filter (\<lambda>r. f_node r = n) fut))))"

text \<open>
  A forecast table for concrete evaluations, read at time 5: the peak of a pair need not
  be its last row, and one row of \<open>n2\<close> lies in the past.
\<close>

definition ex_forecasts :: "forecast_row list" where
  "ex_forecasts =
     [\<lparr> f_timestamp = 10, f_node = ''n1'', f_metric = ''cpu_utilization'', f_forecast = Fin 95 \<rparr>,
      \<lparr> f_timestamp = 20, f_node = ''n1'', f_metric = ''cpu_utilization'', f_forecast = Fin 10 \<rparr>,
      \<lparr> f_timestamp = 10, f_node = ''n1'', f_metric = ''disk_utilization'', f_forecast = Fin 85 \<rparr>,
      \<lparr> f_timestamp = 20, f_node = ''n1'', f_metric = ''disk_utilization'', f_forecast = Fin 60 \<rparr>,
      \<lparr> f_timestamp = 0, f_node = ''n2'', f_metric = ''cpu_utilization'', f_forecast = Fin 99 \<rparr>,
      \<lparr> f_timestamp = 10, f_node = ''n2'', f_metric = ''cpu_utilization'', f_forecast = Fin 78 \<rparr>,
      \<lparr> f_timestamp = 20, f_node = ''n2'', f_metric = ''cpu_utilization'', f_forecast = Fin 74 \<rparr>,
      \<lparr> f_timestamp = 30, f_node = ''n2'', f_metric = ''cpu_utilization'', f_forecast = Fin 70 \<rparr>,
      \<lparr> f_timestamp = 10, f_node = ''n2'', f_metric = ''disk_utilization'', f_forecast = Fin 50 \<rparr>,
      \<lparr> f_timestamp = 20, f_node = ''n2'', f_metric = ''disk_utilization'', f_forecast = Fin 60 \<rparr>]"

section \<open>Forecasting engine\<close>

text \<open>
  \<open>UsageForecaster.load_metrics\<close>: \<open>None\<close> when the store does not exist; otherwise the
  rows with the three utilization columns, computed by the same three lines as in the
  analyzer when the store lacks them. (The efficiency and waste fields of the rows are
  not read by the forecaster.)
\<close>

definition load_metrics :: "sample list option \<Rightarrow> urecord list option" where
  "load_metrics store = map_option (map calculate_utilization_metrics) store"

text \<open>
  The column a metric name selects. The forecaster asks for these three names only; any
  other name is taken as absent (the \<open>KeyError\<close> is caught and gives \<open>None\<close>).
\<close>

definition metric_column :: "string \<Rightarrow> (urecord \<Rightarrow> fl) option" where
  "metric_column m =
     (if m = ''cpu_utilization'' then Some cpu_utilization
      else if m = ''memory_utilization'' then Some memory_utilization
      else if m = ''disk_utilization'' then Some disk_utilization
      else None)"

text \<open>The series of a node as \<open>(ds, y)\<close> pairs, after \<open>dropna()\<close>.\<close>

definition prophet_frame :: "urecord list \<Rightarrow> (urecord \<Rightarrow> fl) \<Rightarrow> (int \<times> fl) list" where
  "prophet_frame node_data col =
     filter (\<lambda>(ds, y). y \<noteq> NaN) (map (\<lambda>r. (timestamp (smp r), col r)) node_data)"

text \<open>Outlier removal: keep \<open>mean - 3 * std <= y <= mean + 3 * std\<close>.\<close>

definition outlier_filter :: "(int \<times> fl) list \<Rightarrow> (int \<times> fl) list" where
  "outlier_filter prophet_data =
     (let mean_val = series_mean (map snd prophet_data);
          std_val = series_std (map snd prophet_data)
      in filter (\<lambda>(ds, y). fl_ge y (fl_sub mean_val (fl_mul (Fin 3) std_val))
                          \<and> fl_le y (fl_add mean_val (fl_mul (Fin 3) std_val)))
           prophet_data)"

text \<open>\<open>UsageForecaster.prepare_prophet_data\<close>\<close>

definition prepare_prophet_data ::
    "urecord list \<Rightarrow> string \<Rightarrow> string \<Rightarrow> (int \<times> fl) list option" where
  "prepare_prophet_data df n metric =
     (let node_data = rows_of df n
      in if length node_data < 10 then None
         else case metric_column metric of
                None \<Rightarrow> None
              | Some col \<Rightarrow>
                  let prophet_data = outlier_filter (prophet_frame node_data col)
                  in if length prophet_data < 5 then None else Some prophet_data)"

text \<open>
  The forecasting library is outside the repository. It is a parameter: given the
  prepared series and the number of periods it yields the prediction rows
  \<open>(ds, yhat, yhat_lower, yhat_upper)\<close>, history first, or \<open>None\<close> when creating,
  fitting or predicting raises.
\<close>

type_synonym prediction = "int \<times> fl \<times> fl \<times> fl"

type_synonym prophet = "(int \<times> fl) list \<Rightarrow> nat \<Rightarrow> prediction list option"

record forecast_out =
  fo_timestamp :: int
  fo_forecast :: fl
  fo_lower_bound :: fl
  fo_upper_bound :: fl
  fo_node :: string
  fo_metric :: string
  fo_mae :: "fl option"
  fo_mape :: "fl option"
  fo_rmse :: "fl option"

text \<open>
  \<open>prophet_data.merge(forecast_data[timestamp.isin(ds)], how='left')\<close>: every historical
  row, paired with the forecast of its timestamp (NaN when there is none), as
  \<open>(y, forecast)\<close>.
\<close>

definition historical_data :: "(int \<times> fl) list \<Rightarrow> prediction list \<Rightarrow> (fl \<times> fl) list" where
  "historical_data prophet_data fc =
     (let known = filter (\<lambda>p. fst p \<in> set (map fst prophet_data)) fc
      in concat (map (\<lambda>(ds, y).
           case filter (\<lambda>p. fst p = ds) known of
             [] \<Rightarrow> [(y, NaN)]
           | ms \<Rightarrow> map (\<lambda>p. (y, fst (snd p))) ms) prophet_data))"

text \<open>The three accuracy figures, over the merged rows.\<close>

definition mae_of :: "(fl \<times> fl) list \<Rightarrow> fl" where
  "mae_of hist = series_mean (map (\<lambda>(y, f). fl_abs (fl_sub y f)) hist)"

definition mape_of :: "(fl \<times> fl) list \<Rightarrow> fl" where
  "mape_of hist =
     fl_mul (series_mean (map (\<lambda>(y, f). fl_abs (fl_div (fl_sub y f) y)) hist)) (Fin 100)"

definition rmse_of :: "(fl \<times> fl) list \<Rightarrow> fl" where
  "rmse_of hist =
     fl_sqrt (series_mean (map (\<lambda>(y, f). fl_mul (fl_sub y f) (fl_sub y f)) hist))"

text \<open>\<open>UsageForecaster.forecast_metric\<close>\<close>

definition forecast_metric ::
    "prophet \<Rightarrow> urecord list \<Rightarrow> string \<Rightarrow> string \<Rightarrow> nat \<Rightarrow> forecast_out list option" where
  "forecast_metric fit df n metric periods =
     (case prepare_prophet_data df n metric of
        None \<Rightarrow> None
      | Some prophet_data \<Rightarrow>
          (case fit prophet_data periods of
             None \<Rightarrow> None
           | Some fc \<Rightarrow>
               let hist = historical_data prophet_data fc;
                   scored = (length hist > 0)
               in Some (map (\<lambda>(ds, yhat, lo, hi).
                     \<lparr> fo_timestamp = ds, fo_forecast = yhat, fo_lower_bound = lo,
                       fo_upper_bound = hi, fo_node = n, fo_metric = metric,
                       fo_mae = (if scored then Some (mae_of hist) else None),
                       fo_mape = (if scored then Some (mape_of hist) else None),
                       fo_rmse = (if scored then Some (rmse_of hist) else None) \<rparr>) fc)))"

definition forecast_metrics :: "string list" where
  "forecast_metrics = [''cpu_utilization'', ''memory_utilization'', ''disk_utilization'']"

text \<open>The (node, metric) pairs in the order of the two nested loops.\<close>

definition forecast_pairs :: "urecord list \<Rightarrow> (string \<times> string) list" where
  "forecast_pairs df =
     concat (map (\<lambda>n. map (\<lambda>m. (n, m)) forecast_metrics) (unique (map node_of df)))"

text \<open>\<open>UsageForecaster.generate_all_forecasts\<close>\<close>

definition generate_all_forecasts ::
    "prophet \<Rightarrow> urecord list \<Rightarrow> nat \<Rightarrow> forecast_out list option" where
  "generate_all_forecasts fit df periods =
     (let all_forecasts =
            concat (map (\<lambda>(n, m). case forecast_metric fit df n m periods of
                                    None \<Rightarrow> [] | Some forecast \<Rightarrow> [forecast])
                      (forecast_pairs df))
      in if all_forecasts \<noteq> [] then Some (concat all_forecasts) else None)"

text \<open>
  \<open>UsageForecaster.run_forecasting\<close>, as the success flag it returns. The steps after
  the forecasts (plots, recommendations, files) catch their own errors.
\<close>

definition run_forecasting :: "prophet \<Rightarrow> sample list option \<Rightarrow> nat \<Rightarrow> bool" where
  "run_forecasting fit store periods =
     (case load_metrics store of
        None \<Rightarrow> False
      | Some df \<Rightarrow>
          (case generate_all_forecasts fit df periods of
             None \<Rightarrow> False
           | Some forecasts \<Rightarrow> True))"

text \<open>The reported MAPE of a pair: the \<open>mape\<close> column of its first forecast row.\<close>

definition reported_mape :: "prophet \<Rightarrow> urecord list \<Rightarrow> string \<Rightarrow> string \<Rightarrow> nat \<Rightarrow> fl option" where
  "reported_mape fit df n metric periods =
     (case forecast_metric fit df n metric periods of
        None \<Rightarrow> None
      | Some [] \<Rightarrow> None
      | Some (r # rs) \<Rightarrow> fo_mape r)"

text \<open>
  A stand-in for the library in concrete evaluations: it predicts the constant 1 at every
  historical timestamp and adds no future rows.
\<close>

definition const_prophet :: prophet where
  "const_prophet prophet_data periods =
     Some (map (\<lambda>(ds, y). (ds, Fin 1, Fin 0, Fin 2)) prophet_data)"

text \<open>Ten hourly samples of an idle node (0 of 8 vCPUs in use), and a store of one sample.\<close>

definition idle_store :: "sample list" where
  "idle_store = map (\<lambda>i. mk_sample (3600 * int i) ''n1'' 0 8 100 1000 50 100) [0..<10]"

definition short_store :: "sample list" where
  "short_store = [mk_sample 0 ''n1'' 4 8 100 1000 50 100]"

section \<open>Anomaly detector\<close>

text \<open>
  \<open>Series.rolling(window, min_periods=1)\<close>: the window of row \<open>i\<close> holds the rows
  \<open>i - window + 1 .. i\<close> that exist. pandas replaces infinities by NaN before a rolling
  aggregation and skips NaN inside the window: the mean is over the remaining
  observations (NaN when there is none), the standard deviation (\<open>ddof = 1\<close>) needs two.
\<close>

fun rolling_prep :: "fl \<Rightarrow> fl" where
  "rolling_prep PInf = NaN"
| "rolling_prep NInf = NaN"
| "rolling_prep v = v"

definition window_at :: "nat \<Rightarrow> fl list \<Rightarrow> nat \<Rightarrow> fl list" where
  "window_at w xs i = drop (i + 1 - w) (take (i + 1) xs)"

definition rolling_mean :: "nat \<Rightarrow> fl list \<Rightarrow> fl list" where
  "rolling_mean w xs =
     map (\<lambda>i. series_mean (map rolling_prep (window_at w xs i))) [0..<length xs]"

definition rolling_std :: "nat \<Rightarrow> fl list \<Rightarrow> fl list" where
  "rolling_std w xs =
     map (\<lambda>i. series_std (map rolling_prep (window_at w xs i))) [0..<length xs]"

text \<open>The row filter of the detector: the value lies outside mean +- 2 std.\<close>

definition is_anomaly :: "fl \<Rightarrow> fl \<Rightarrow> fl \<Rightarrow> bool" where
  "is_anomaly v m s =
     (fl_greater v (fl_add m (fl_mul (Fin 2) s)) \<or> fl_less v (fl_sub m (fl_mul (Fin 2) s)))"

text \<open>
  An anomaly record. The \<open>expected_range\<close> text is formatted from two rounded numbers,
  which the record keeps as a pair.
\<close>

record anomaly =
  a_timestamp :: int
  a_node :: string
  a_metric :: string
  a_value :: fl
  a_expected_range :: "fl \<times> fl"
  a_severity :: string

definition anomaly_of :: "string \<Rightarrow> string \<Rightarrow> int \<Rightarrow> fl \<Rightarrow> fl \<Rightarrow> fl \<Rightarrow> anomaly" where
  "anomaly_of n metric ts v m s =
     \<lparr> a_timestamp = ts, a_node = n, a_metric = metric,
       a_value = fl_round2 v,
       a_expected_range = (fl_round2 (fl_sub m (fl_mul (Fin 2) s)),
                           fl_round2 (fl_add m (fl_mul (Fin 2) s))),
       a_severity = (if fl_greater (fl_abs (fl_sub v m)) (fl_mul (Fin 3) s)
                     then ''High'' else ''Medium'') \<rparr>"

text \<open>The anomalies of one metric column of a node's rows.\<close>

definition metric_anomalies ::
  "string \<Rightarrow> string \<Rightarrow> urecord list \<Rightarrow> (urecord \<Rightarrow> fl) \<Rightarrow> anomaly list" where
  "metric_anomalies n metric node_data col =
     (let window = min 24 (length node_data);
          means = rolling_mean window (map col node_data);
          stds = rolling_std window (map col node_data)
      in map (\<lambda>(r, m, s). anomaly_of n metric (timestamp (smp r)) (col r) m s)
           (filter (\<lambda>(r, m, s). is_anomaly (col r) m s)
              (zip node_data (zip means stds))))"

definition node_anomalies :: "urecord list \<Rightarrow> string \<Rightarrow> anomaly list" where
  "node_anomalies df n =
     (let node_data = rows_of df n
      in metric_anomalies n ''cpu_utilization'' node_data cpu_utilization
         @ metric_anomalies n ''memory_utilization'' node_data memory_utilization)"

definition generate_anomaly_detection :: "urecord list \<Rightarrow> anomaly list" where
  "generate_anomaly_detection df = concat (map (node_anomalies df) (unique (map node_of df)))"

text \<open>
  Example stores: node \<open>n1\<close> is constant over three samples while \<open>n2\<close> moves; a node
  with five idle samples and a spike in the sixth.
\<close>

definition steady_df :: "urecord list" where
  "steady_df = map calculate_utilization_metrics
     [mk_sample 0 ''n1'' 4 8 100 1000 50 100,
      mk_sample 0 ''n2'' 1 8 100 1000 50 100,
      mk_sample 3600 ''n1'' 4 8 100 1000 50 100,
      mk_sample 3600 ''n2'' 7 8 900 1000 50 100,
      mk_sample 7200 ''n1'' 4 8 100 1000 50 100]"

definition spike_df :: "urecord list" where
  "spike_df = map calculate_utilization_metrics
     (map (\<lambda>i. mk_sample (3600 * int i) ''n1'' 0 8 100 1000 50 100) [0..<5]
      @ [mk_sample 18000 ''n1'' 8 8 100 1000 50 100])"

section \<open>Trend estimator\<close>

text \<open>
  \<open>df.set_index('timestamp').groupby('node').resample('H').agg(... 'mean')\<close>: for every
  node (the groups come in sorted key order) one row per hour from the hour of the node's
  earliest sample to the hour of its latest one. A column of the row is the mean of that
  column over the node's samples of that hour, NaN when the hour holds no sample.
\<close>

definition hour_of :: "urecord \<Rightarrow> int" where
  "hour_of r = timestamp (smp r) div 3600"

record hourly =
  h_node :: string
  h_hour :: int
  h_cpu_utilization :: fl
  h_memory_utilization :: fl
  h_disk_utilization :: fl
  h_instances :: fl
  h_vcpus_used :: fl
  h_memory_used_mb :: fl
  h_disk_used_gb :: fl

definition int_col :: "(sample \<Rightarrow> int) \<Rightarrow> urecord \<Rightarrow> fl" where
  "int_col f r = Fin (of_int (f (smp r)))"

definition bucket_rows :: "urecord list \<Rightarrow> string \<Rightarrow> int \<Rightarrow> urecord list" where
  "bucket_rows df n h = filter (\<lambda>r. hour_of r = h) (rows_of df n)"

definition bucket_of :: "urecord list \<Rightarrow> string \<Rightarrow> int \<Rightarrow> hourly" where
  "bucket_of df n h =
     (let b = bucket_rows df n h
      in \<lparr> h_node = n, h_hour = h,
           h_cpu_utilization = series_mean (map cpu_utilization b),
           h_memory_utilization = series_mean (map memory_utilization b),
           h_disk_utilization = series_mean (map disk_utilization b),
           h_instances = series_mean (map (int_col instances) b),
           h_vcpus_used = series_mean (map (int_col vcpus_used) b),
           h_memory_used_mb = series_mean (map (int_col memory_used_mb) b),
           h_disk_used_gb = series_mean (map (int_col disk_used_gb) b) \<rparr>)"

definition hours_of :: "urecord list \<Rightarrow> string \<Rightarrow> int list" where
  "hours_of df n =
     (let hs = map hour_of (rows_of df n) in [Min (set hs)..Max (set hs)])"

definition resample_node :: "urecord list \<Rightarrow> string \<Rightarrow> hourly list" where
  "resample_node df n = map (bucket_of df n) (hours_of df n)"

definition df_hourly :: "urecord list \<Rightarrow> hourly list" where
  "df_hourly df = concat (map (resample_node df) (group_keys df))"

text \<open>
  \<open>np.polyfit(x, y, 1)[0]\<close> is a library routine: the estimator takes it as a parameter,
  from the abscissae and the ordinates to the slope of the fitted line. On \<open>x = arange(len)\<close>
  with \<open>len > 1\<close> it raises nothing, whatever the ordinates.
\<close>

type_synonym polyfit = "fl list \<Rightarrow> fl list \<Rightarrow> fl"

record trend =
  cpu_trend :: fl
  memory_trend :: fl
  disk_trend :: fl
  data_points :: nat

definition arange :: "nat \<Rightarrow> fl list" where
  "arange k = map (\<lambda>i. Fin (real i)) [0..<k]"

text \<open>One turn of the loop over \<open>df['node'].unique()\<close>.\<close>

definition trend_step ::
  "polyfit \<Rightarrow> hourly list \<Rightarrow> (string \<rightharpoonup> trend) \<Rightarrow> string \<Rightarrow> (string \<rightharpoonup> trend)" where
  "trend_step fit hourly_rows trends n =
     (let node_data = filter (\<lambda>r. h_node r = n) hourly_rows
      in if length node_data > 1
         then let x = arange (length node_data)
              in trends(n \<mapsto>
                   \<lparr> cpu_trend = fit x (map fillna0 (map h_cpu_utilization node_data)),
                     memory_trend = fit x (map fillna0 (map h_memory_utilization node_data)),
                     disk_trend = fit x (map fillna0 (map h_disk_utilization node_data)),
                     data_points = length node_data \<rparr>)
         else trends)"

definition generate_time_series_analysis ::
  "polyfit \<Rightarrow> urecord list \<Rightarrow> (string \<rightharpoonup> trend)" where
  "generate_time_series_analysis fit df =
     foldl (trend_step fit (df_hourly df)) Map.empty (unique (map node_of df))"

text \<open>The hourly series of a node, as the loop selects it from the resampled frame.\<close>

definition node_hourly :: "urecord list \<Rightarrow> string \<Rightarrow> hourly list" where
  "node_hourly df n = filter (\<lambda>r. h_node r = n) (df_hourly df)"

text \<open>
  The gap-filled series of a column: one value per hour between the node's first and last
  sample, the hour's mean where the hour has samples (0 if that mean is NaN), and 0 where
  it has none.
\<close>

definition gap_filled :: "urecord list \<Rightarrow> string \<Rightarrow> (urecord \<Rightarrow> fl) \<Rightarrow> fl list" where
  "gap_filled df n col =
     map (\<lambda>h. if bucket_rows df n h = [] then Fin 0
              else fillna0 (series_mean (map col (bucket_rows df n h))))
       (hours_of df n)"

text \<open>
  The least-squares slope in closed form, for concrete evaluations:
  \<open>(k * sum(x*y) - sum(x) * sum(y)) / (k * sum(x*x) - sum(x)^2)\<close>.
\<close>

definition ols_slope :: polyfit where
  "ols_slope xs ys =
     (let k = Fin (real (length xs));
          sx = fl_sum xs; sy = fl_sum ys;
          sxy = fl_sum (map (\<lambda>(x, y). fl_mul x y) (zip xs ys));
          sxx = fl_sum (map (\<lambda>x. fl_mul x x) xs)
      in fl_div (fl_sub (fl_mul k sxy) (fl_mul sx sy)) (fl_sub (fl_mul k sxx) (fl_mul sx sx)))"

text \<open>
  Example stores: node \<open>n1\<close> sampled in hour 0 (10 percent CPU) and in hour 2 (30 percent),
  nothing in hour 1, and node \<open>n2\<close> sampled twice within one hour.
\<close>

definition gap_df :: "urecord list" where
  "gap_df = map calculate_utilization_metrics
     [mk_sample 0 ''n1'' 1 10 100 1000 50 100,
      mk_sample 600 ''n2'' 1 10 100 1000 50 100,
      mk_sample 1200 ''n2'' 2 10 100 1000 50 100,
      mk_sample 7200 ''n1'' 3 10 100 1000 50 100]"

section \<open>Utilization calculator\<close>

lemma ratio_pct_nonzero:
  "tot \<noteq> 0 \<Longrightarrow> ratio_pct used tot = Fin (of_int used / of_int tot * 100)"
  by (simp add: ratio_pct_def)

lemma ratio_pct_zero_zero: "ratio_pct 0 0 = Fin 0"
  by (simp add: ratio_pct_def inf_of_sign_def)

lemma ratio_pct_pos_zero: "used > 0 \<Longrightarrow> ratio_pct used 0 = PInf"
  by (simp add: ratio_pct_def inf_of_sign_def)

lemma ratio_pct_neg_zero: "used < 0 \<Longrightarrow> ratio_pct used 0 = NInf"
  by (simp add: ratio_pct_def inf_of_sign_def)

text \<open>
  C1. The claim: each derived utilization is used/total*100 and is 0 whenever the total
  is 0, for every value of the used field. The analyzer does not do that: with
  \<open>vcpus_used = 5\<close> and \<open>vcpus_total = 0\<close> the quotient is +infinity, which
  \<open>fillna(0)\<close> leaves alone, so the derived \<open>cpu_utilization\<close> is +infinity (and likewise
  memory and disk), while the collector's computation of the same field gives 0 there.
\<close>

theorem C1_zero_total_gives_infinity:
  "cpu_utilization (calculate_utilization_metrics (mk_sample 0 ''n1'' 5 0 7 0 9 0)) = PInf
   \<and> memory_utilization (calculate_utilization_metrics (mk_sample 0 ''n1'' 5 0 7 0 9 0)) = PInf
   \<and> disk_utilization (calculate_utilization_metrics (mk_sample 0 ''n1'' 5 0 7 0 9 0)) = PInf
   \<and> collector_util 5 0 = Fin 0"
  by (simp add: calculate_utilization_metrics_def mk_sample_def ratio_pct_def
      inf_of_sign_def collector_util_def Let_def)

section \<open>Node summary\<close>

text \<open>
  C3. For every node row, \<open>overall_risk\<close> is High iff at least one of the three metric
  risks is High, is Low iff all three are Low, and is the maximum severity of the three.
\<close>

theorem C3_overall_risk_is_worst:
  "(overall_risk c m d = High) = (c = High \<or> m = High \<or> d = High)
   \<and> (overall_risk c m d = Low) = (c = Low \<and> m = Low \<and> d = Low)
   \<and> overall_risk c m d = worst c (worst m d)"
  by (cases c; cases m; cases d; simp add: overall_risk_def worst_def)

section \<open>Capacity analyzer: per-node recommendations\<close>




lemma distinct_group_keys: "distinct (group_keys df)"
  by (simp add: group_keys_def)

lemma set_group_keys: "set (group_keys df) = set (map node_of df)"
  by (simp add: group_keys_def)








section \<open>Capacity analyzer: cluster roll-up\<close>






















section \<open>Recommendation generator: one tier per pair\<close>

lemma set_unique: "set (unique xs) = set xs"
  by (induction xs rule: unique.induct) auto

lemma distinct_unique: "distinct (unique xs)"
  by (induction xs rule: unique.induct) (auto simp: set_unique)

lemma filter_concat_keyed:
  assumes "distinct ks" and "\<And>k' r. k' \<in> set ks \<Longrightarrow> r \<in> set (g k') \<Longrightarrow> key r = k'"
  shows "filter (\<lambda>r. key r = k) (concat (map g ks)) = (if k \<in> set ks then g k else [])"
  using assms
proof (induction ks)
  case Nil
  then show ?case by simp
next
  case (Cons a ks)
  have own: "filter (\<lambda>r. key r = a) (g a) = g a"
    using Cons.prems(2)[of a] by (simp add: filter_id_conv)
  have other: "k \<noteq> a \<Longrightarrow> filter (\<lambda>r. key r = k) (g a) = []"
    using Cons.prems(2)[of a] by (auto simp: filter_empty_conv)
  have IH: "filter (\<lambda>r. key r = k) (concat (map g ks)) = (if k \<in> set ks then g k else [])"
    using Cons.IH Cons.prems by auto
  show ?case
  proof (cases "k = a")
    case True
    then have "k \<notin> set ks" using Cons.prems(1) by simp
    with True IH own show ?thesis by simp
  next
    case False
    with IH other show ?thesis by simp
  qed
qed

lemma classify_keys: "r \<in> set (classify n m vs) \<Longrightarrow> rc_node r = n \<and> rc_metric r = m"
  by (auto simp: classify_def Let_def split: if_splits)

lemma classify_Nil: "classify n m [] = []"
  by (simp add: classify_def series_max_def series_mean_def dropna_def fl_greater_def)

lemma length_classify: "length (classify n m vs) \<le> 1"
  by (simp add: classify_def Let_def)

lemma inner_recs_node: "r \<in> set (inner_recs fut n) \<Longrightarrow> rc_node r = n"
  by (auto simp: inner_recs_def dest: classify_keys)

lemma inner_recs_metric:
  "filter (\<lambda>r. rc_metric r = m) (inner_recs fut n)
   = classify n m (map f_forecast (filter (\<lambda>r. f_node r = n \<and> f_metric r = m) fut))"
proof -
  let ?nf = "filter (\<lambda>r. f_node r = n) fut"
  let ?g = "\<lambda>m. classify n m (map f_forecast (filter (\<lambda>r. f_metric r = m) ?nf))"
  have "filter (\<lambda>r. rc_metric r = m) (concat (map ?g (unique (map f_metric ?nf))))
        = (if m \<in> set (unique (map f_metric ?nf)) then ?g m else [])"
    by (rule filter_concat_keyed) (auto simp: distinct_unique dest: classify_keys)
  moreover have "m \<notin> set (map f_metric ?nf) \<Longrightarrow> filter (\<lambda>r. f_metric r = m) ?nf = []"
    by (auto simp: filter_empty_conv)
  ultimately have "filter (\<lambda>r. rc_metric r = m) (inner_recs fut n) = ?g m"
    by (auto simp: inner_recs_def set_unique classify_Nil simp del: set_map)
  then show ?thesis by (simp add: conj_commute)
qed

lemma recs_for_generate:
  "recs_for (generate_capacity_recommendations fs now) n m
   = classify n m (pair_values fs now n m)"
proof (cases "fs = []")
  case True
  then show ?thesis
    by (simp add: recs_for_def generate_capacity_recommendations_def pair_values_def classify_Nil)
next
  case False
  let ?fut = "filter (\<lambda>r. f_timestamp r > now) fs"
  have gen: "generate_capacity_recommendations fs now
             = concat (map (inner_recs ?fut) (unique (map f_node ?fut)))"
    using False by (simp add: generate_capacity_recommendations_def inner_recs_def[abs_def] Let_def)
  have byn: "filter (\<lambda>r. rc_node r = n) (concat (map (inner_recs ?fut) (unique (map f_node ?fut))))
        = (if n \<in> set (unique (map f_node ?fut)) then inner_recs ?fut n else [])"
    by (rule filter_concat_keyed) (auto simp: distinct_unique dest: inner_recs_node)
  have split: "recs_for (generate_capacity_recommendations fs now) n m
        = filter (\<lambda>r. rc_metric r = m)
            (if n \<in> set (unique (map f_node ?fut)) then inner_recs ?fut n else [])"
    unfolding byn[symmetric] gen[symmetric] by (simp add: recs_for_def)
  show ?thesis
  proof (cases "n \<in> set (map f_node ?fut)")
    case True
    then show ?thesis
      unfolding split by (simp add: set_unique inner_recs_metric pair_values_def del: set_map)
  next
    case False
    then have "pair_values fs now n m = []"
      by (auto simp: pair_values_def filter_empty_conv)
    with False show ?thesis
      unfolding split by (simp add: set_unique classify_Nil del: set_map)
  qed
qed

lemma fl_less_fl_max:
  "y \<noteq> NaN \<Longrightarrow> fl_less (Fin t) (fl_max y z) = (fl_less (Fin t) y \<or> fl_less (Fin t) z)"
  by (cases y; cases z) (auto simp: fl_max_def)

lemma fl_max_not_NaN: "y \<noteq> NaN \<Longrightarrow> fl_max y z \<noteq> NaN"
  by (cases y; cases z) (auto simp: fl_max_def)

lemma foldl_fl_max_exceeds:
  "y \<noteq> NaN \<Longrightarrow>
     fl_less (Fin t) (foldl fl_max y ys)
     = (fl_less (Fin t) y \<or> (\<exists>v \<in> set ys. fl_less (Fin t) v))"
  by (induction ys arbitrary: y) (auto simp: fl_less_fl_max fl_max_not_NaN)

text \<open>
  The maximum of a series exceeds a threshold exactly when one of its values does
  (NaN compares false with everything and is skipped by \<open>max\<close>).
\<close>

lemma series_max_exceeds:
  "fl_greater (series_max vs) (Fin t) = (\<exists>v \<in> set vs. fl_greater v (Fin t))"
proof -
  have skip: "(\<exists>v \<in> set (dropna vs). fl_less (Fin t) v) = (\<exists>v \<in> set vs. fl_less (Fin t) v)"
    by (auto simp: dropna_def)
  show ?thesis
  proof (cases "dropna vs")
    case Nil
    then show ?thesis
      using skip by (simp add: series_max_def fl_greater_def)
  next
    case (Cons y ys)
    then have "y \<in> set (dropna vs)" by simp
    then have "y \<noteq> NaN" by (simp add: dropna_def)
    then have "fl_less (Fin t) (foldl fl_max y ys)
               = (\<exists>v \<in> set (dropna vs). fl_less (Fin t) v)"
      by (simp add: foldl_fl_max_exceeds Cons)
    then show ?thesis
      using skip by (simp add: series_max_def fl_greater_def Cons)
  qed
qed

lemma foldl_fl_max_Fin: "foldl fl_max (Fin a) (map Fin as) = Fin (foldl max a as)"
  by (induction as arbitrary: a) (simp_all add: fl_max_def max_def)

lemma dropna_map_Fin: "dropna (map Fin rs) = map Fin rs"
  by (simp add: dropna_def filter_id_conv)

text \<open>On finite values the two statistics are the maximum and the arithmetic mean.\<close>

lemma series_max_Fin: "rs \<noteq> [] \<Longrightarrow> series_max (map Fin rs) = Fin (Max (set rs))"
proof (cases rs)
  case Nil
  then show "rs \<noteq> [] \<Longrightarrow> ?thesis" by simp
next
  case (Cons a as)
  have "foldl max a as = fold max as a"
    by (simp add: foldl_conv_fold max.commute)
  then have "foldl max a as = Max (set (a # as))"
    by (simp only: Max.set_eq_fold)
  then show ?thesis
    unfolding Cons series_max_def dropna_map_Fin by (simp add: foldl_fl_max_Fin)
qed

lemma fl_sum_map_Fin: "fl_sum (map Fin rs) = Fin (sum_list rs)"
  by (induction rs) simp_all

lemma series_mean_Fin:
  "rs \<noteq> [] \<Longrightarrow> series_mean (map Fin rs) = Fin (sum_list rs / real (length rs))"
  unfolding series_mean_def dropna_map_Fin by (simp add: fl_sum_map_Fin)

lemma classify_finite:
  assumes "rs \<noteq> []"
  shows "map rc_severity (classify n m (map Fin rs))
         = (if Max (set rs) > 90 then [''Critical'']
            else if Max (set rs) > 80 then [''High'']
            else if sum_list rs / real (length rs) > 70 then [''Medium''] else [])"
    and "Max (set rs) > 80 \<Longrightarrow> map rc_value (classify n m (map Fin rs)) = [Fin (Max (set rs))]"
  by (simp_all add: classify_def Let_def series_max_Fin[OF assms] series_mean_Fin[OF assms]
      fl_greater_def)

lemma classify_exceeds:
  "map rc_severity (classify n m vs)
   = (if \<exists>v \<in> set vs. fl_greater v (Fin 90) then [''Critical'']
      else if \<exists>v \<in> set vs. fl_greater v (Fin 80) then [''High'']
      else if fl_greater (series_mean vs) (Fin 70) then [''Medium''] else [])"
  by (simp add: classify_def Let_def series_max_exceeds)

text \<open>
  C4. For every (node, metric) pair the generator emits at most one recommendation,
  decided by the pair's forecast values strictly after the current time: Critical when
  one of them (hence the maximum) exceeds 90, otherwise High when one exceeds 80. When
  those values are the finite numbers \<open>rs\<close>, with \<open>Max\<close> their maximum and
  \<open>sum / length\<close> their mean: Critical when the maximum exceeds 90 (reported with that
  maximum), otherwise High when it exceeds 80, otherwise Medium when the mean exceeds 70,
  otherwise nothing; a maximum of exactly 95 gives exactly one recommendation, and it is
  Critical. A pair without future rows gets nothing.
\<close>

theorem C4_recommendation_tiers:
  "length (recs_for (generate_capacity_recommendations fs now) n m) \<le> 1
   \<and> ((\<exists>v \<in> set (pair_values fs now n m). fl_greater v (Fin 90)) \<longrightarrow>
        map rc_severity (recs_for (generate_capacity_recommendations fs now) n m) = [''Critical''])
   \<and> (\<not> (\<exists>v \<in> set (pair_values fs now n m). fl_greater v (Fin 90))
        \<and> (\<exists>v \<in> set (pair_values fs now n m). fl_greater v (Fin 80)) \<longrightarrow>
        map rc_severity (recs_for (generate_capacity_recommendations fs now) n m) = [''High''])
   \<and> (pair_values fs now n m = map Fin rs \<and> rs \<noteq> [] \<longrightarrow>
        (Max (set rs) > 90 \<longrightarrow>
           map rc_severity (recs_for (generate_capacity_recommendations fs now) n m)
             = [''Critical'']
           \<and> map rc_value (recs_for (generate_capacity_recommendations fs now) n m)
             = [Fin (Max (set rs))])
        \<and> (Max (set rs) \<le> 90 \<and> Max (set rs) > 80 \<longrightarrow>
           map rc_severity (recs_for (generate_capacity_recommendations fs now) n m)
             = [''High''])
        \<and> (Max (set rs) \<le> 80 \<and> sum_list rs / real (length rs) > 70 \<longrightarrow>
           map rc_severity (recs_for (generate_capacity_recommendations fs now) n m)
             = [''Medium''])
        \<and> (Max (set rs) \<le> 80 \<and> sum_list rs / real (length rs) \<le> 70 \<longrightarrow>
           recs_for (generate_capacity_recommendations fs now) n m = [])
        \<and> (Max (set rs) = 95 \<longrightarrow>
           map rc_severity (recs_for (generate_capacity_recommendations fs now) n m)
             = [''Critical'']))
   \<and> (pair_values fs now n m = [] \<longrightarrow>
        recs_for (generate_capacity_recommendations fs now) n m = [])"
proof -
  let ?recs = "recs_for (generate_capacity_recommendations fs now) n m"
  let ?pv = "pair_values fs now n m"
  have r: "?recs = classify n m ?pv" by (rule recs_for_generate)
  have len: "length ?recs \<le> 1" unfolding r by (rule length_classify)
  have gen: "((\<exists>v \<in> set ?pv. fl_greater v (Fin 90)) \<longrightarrow> map rc_severity ?recs = [''Critical''])
     \<and> (\<not> (\<exists>v \<in> set ?pv. fl_greater v (Fin 90)) \<and> (\<exists>v \<in> set ?pv. fl_greater v (Fin 80))
          \<longrightarrow> map rc_severity ?recs = [''High''])"
    unfolding r classify_exceeds by simp
  have fin: "(Max (set rs) > 90 \<longrightarrow>
           map rc_severity ?recs = [''Critical''] \<and> map rc_value ?recs = [Fin (Max (set rs))])
        \<and> (Max (set rs) \<le> 90 \<and> Max (set rs) > 80 \<longrightarrow> map rc_severity ?recs = [''High''])
        \<and> (Max (set rs) \<le> 80 \<and> sum_list rs / real (length rs) > 70 \<longrightarrow>
              map rc_severity ?recs = [''Medium''])
        \<and> (Max (set rs) \<le> 80 \<and> sum_list rs / real (length rs) \<le> 70 \<longrightarrow> ?recs = [])
        \<and> (Max (set rs) = 95 \<longrightarrow> map rc_severity ?recs = [''Critical''])"
    if hyp: "?pv = map Fin rs \<and> rs \<noteq> []"
  proof -
    have ne: "rs \<noteq> []" and pv: "?pv = map Fin rs" using hyp by simp_all
    have sev: "map rc_severity ?recs
         = (if Max (set rs) > 90 then [''Critical'']
            else if Max (set rs) > 80 then [''High'']
            else if sum_list rs / real (length rs) > 70 then [''Medium''] else [])"
      unfolding r pv by (rule classify_finite(1)[OF ne])
    have val: "Max (set rs) > 90 \<Longrightarrow> map rc_value ?recs = [Fin (Max (set rs))]"
      unfolding r pv by (rule classify_finite(2)[OF ne]) simp
    have "map rc_severity ?recs = []"
      if "Max (set rs) \<le> 80 \<and> sum_list rs / real (length rs) \<le> 70"
      using that by (subst sev) simp
    then have nn: "Max (set rs) \<le> 80 \<and> sum_list rs / real (length rs) \<le> 70 \<longrightarrow> ?recs = []"
      by simp
    have c: "Max (set rs) > 90 \<longrightarrow>
           map rc_severity ?recs = [''Critical''] \<and> map rc_value ?recs = [Fin (Max (set rs))]"
      using val by (simp add: sev)
    have h: "Max (set rs) \<le> 90 \<and> Max (set rs) > 80 \<longrightarrow> map rc_severity ?recs = [''High'']"
      by (simp add: sev)
    have m: "Max (set rs) \<le> 80 \<and> sum_list rs / real (length rs) > 70 \<longrightarrow>
              map rc_severity ?recs = [''Medium'']"
      by (simp add: sev)
    have e: "Max (set rs) = 95 \<longrightarrow> map rc_severity ?recs = [''Critical'']"
      by (simp add: sev)
    show ?thesis by (intro conjI c h m nn e)
  qed
  have none: "?pv = [] \<longrightarrow> ?recs = []"
    unfolding r by (simp add: classify_Nil)
  show ?thesis
    using len gen fin none by blast
qed

lemma ex_pair_values:
  "pair_values ex_forecasts 5 ''n1'' ''cpu_utilization'' = map Fin [95, 10]"
  "pair_values ex_forecasts 5 ''n1'' ''disk_utilization'' = map Fin [85, 60]"
  "pair_values ex_forecasts 5 ''n2'' ''cpu_utilization'' = map Fin [78, 74, 70]"
  "pair_values ex_forecasts 5 ''n2'' ''disk_utilization'' = map Fin [50, 60]"
  by (simp_all add: pair_values_def ex_forecasts_def)

lemma ex_gen:
  "map (\<lambda>r. (rc_node r, rc_metric r, rc_severity r)) (generate_capacity_recommendations ex_forecasts 5)
   = [(''n1'', ''cpu_utilization'', ''Critical''), (''n1'', ''disk_utilization'', ''High''),
      (''n2'', ''cpu_utilization'', ''Medium'')]"
  by (simp add: generate_capacity_recommendations_def ex_forecasts_def classify_def Let_def
      series_max_def series_mean_def dropna_def fl_max_def fl_greater_def)

theorem C4_recommendation_tiers_witness:
  "pair_values ex_forecasts 5 ''n1'' ''cpu_utilization'' = map Fin [95, 10]
   \<and> Max (set [95, 10 :: real]) = 95
   \<and> map rc_severity (recs_for (generate_capacity_recommendations ex_forecasts 5)
          ''n1'' ''cpu_utilization'') = [''Critical'']
   \<and> map rc_value (recs_for (generate_capacity_recommendations ex_forecasts 5)
          ''n1'' ''cpu_utilization'') = [Fin 95]
   \<and> pair_values ex_forecasts 5 ''n1'' ''disk_utilization'' = map Fin [85, 60]
   \<and> map rc_severity (recs_for (generate_capacity_recommendations ex_forecasts 5)
          ''n1'' ''disk_utilization'') = [''High'']
   \<and> pair_values ex_forecasts 5 ''n2'' ''cpu_utilization'' = map Fin [78, 74, 70]
   \<and> map rc_severity (recs_for (generate_capacity_recommendations ex_forecasts 5)
          ''n2'' ''cpu_utilization'') = [''Medium'']
   \<and> pair_values ex_forecasts 5 ''n2'' ''disk_utilization'' = map Fin [50, 60]
   \<and> recs_for (generate_capacity_recommendations ex_forecasts 5)
          ''n2'' ''disk_utilization'' = []"
proof -
  have ha: "pair_values ex_forecasts 5 ''n1'' ''cpu_utilization'' = map Fin [95, 10]
            \<and> [95, 10 :: real] \<noteq> []"
    and hb: "pair_values ex_forecasts 5 ''n1'' ''disk_utilization'' = map Fin [85, 60]
            \<and> [85, 60 :: real] \<noteq> []"
    and hc: "pair_values ex_forecasts 5 ''n2'' ''cpu_utilization'' = map Fin [78, 74, 70]
            \<and> [78, 74, 70 :: real] \<noteq> []"
    and hd: "pair_values ex_forecasts 5 ''n2'' ''disk_utilization'' = map Fin [50, 60]
            \<and> [50, 60 :: real] \<noteq> []"
    by (simp_all add: ex_pair_values)
  have ma: "Max (set [95, 10 :: real]) = 95" by simp
  have ma90: "Max (set [95, 10 :: real]) > 90" by simp
  have mb: "Max (set [85, 60 :: real]) \<le> 90 \<and> Max (set [85, 60 :: real]) > 80" by simp
  have mc: "Max (set [78, 74, 70 :: real]) \<le> 80
            \<and> sum_list [78, 74, 70 :: real] / real (length [78, 74, 70 :: real]) > 70"
    by simp
  have md: "Max (set [50, 60 :: real]) \<le> 80
            \<and> sum_list [50, 60 :: real] / real (length [50, 60 :: real]) \<le> 70"
    by simp
  note ta = C4_recommendation_tiers[of ex_forecasts 5 "''n1''" "''cpu_utilization''" "[95, 10]",
      THEN conjunct2, THEN conjunct2, THEN conjunct2, THEN conjunct1, THEN mp, OF ha]
  note tb = C4_recommendation_tiers[of ex_forecasts 5 "''n1''" "''disk_utilization''" "[85, 60]",
      THEN conjunct2, THEN conjunct2, THEN conjunct2, THEN conjunct1, THEN mp, OF hb]
  note tc = C4_recommendation_tiers[of ex_forecasts 5 "''n2''" "''cpu_utilization''"
      "[78, 74, 70]",
      THEN conjunct2, THEN conjunct2, THEN conjunct2, THEN conjunct1, THEN mp, OF hc]
  note td = C4_recommendation_tiers[of ex_forecasts 5 "''n2''" "''disk_utilization''" "[50, 60]",
      THEN conjunct2, THEN conjunct2, THEN conjunct2, THEN conjunct1, THEN mp, OF hd]
  have crit: "map rc_severity (recs_for (generate_capacity_recommendations ex_forecasts 5)
          ''n1'' ''cpu_utilization'') = [''Critical'']"
    by (rule ta[THEN conjunct2, THEN conjunct2, THEN conjunct2, THEN conjunct2, THEN mp, OF ma])
  have val: "map rc_value (recs_for (generate_capacity_recommendations ex_forecasts 5)
          ''n1'' ''cpu_utilization'') = [Fin 95]"
    using ta[THEN conjunct1, THEN mp, OF ma90, THEN conjunct2] unfolding ma .
  have high: "map rc_severity (recs_for (generate_capacity_recommendations ex_forecasts 5)
          ''n1'' ''disk_utilization'') = [''High'']"
    by (rule tb[THEN conjunct2, THEN conjunct1, THEN mp, OF mb])
  have medium: "map rc_severity (recs_for (generate_capacity_recommendations ex_forecasts 5)
          ''n2'' ''cpu_utilization'') = [''Medium'']"
    by (rule tc[THEN conjunct2, THEN conjunct2, THEN conjunct1, THEN mp, OF mc])
  have none: "recs_for (generate_capacity_recommendations ex_forecasts 5)
          ''n2'' ''disk_utilization'' = []"
    by (rule td[THEN conjunct2, THEN conjunct2, THEN conjunct2, THEN conjunct1, THEN mp, OF md])
  show ?thesis
    by (intro conjI ha[THEN conjunct1] hb[THEN conjunct1] hc[THEN conjunct1] hd[THEN conjunct1]
        ma crit val high medium none)
qed

section \<open>Forecasting engine: minimum sample thresholds\<close>

lemma prepare_Some_iff:
  "(prepare_prophet_data df n metric = Some pd) =
     (10 \<le> length (rows_of df n)
      \<and> (\<exists>col. metric_column metric = Some col
            \<and> pd = outlier_filter (prophet_frame (rows_of df n) col)
            \<and> 5 \<le> length pd))"
  by (auto simp: prepare_prophet_data_def Let_def split: option.splits)

lemma forecast_metric_Some:
  "forecast_metric fit df n metric periods = Some rows \<Longrightarrow>
     \<exists>pd. prepare_prophet_data df n metric = Some pd"
  by (auto simp: forecast_metric_def split: option.splits)

lemma forecast_metric_None:
  "prepare_prophet_data df n metric = None \<Longrightarrow> forecast_metric fit df n metric periods = None"
  by (simp add: forecast_metric_def)

lemma all_forecasts_None_iff:
  "(generate_all_forecasts fit df periods = None) =
     (\<forall>p \<in> set (forecast_pairs df). forecast_metric fit df (fst p) (snd p) periods = None)"
proof -
  let ?G = "\<lambda>(n, m). case forecast_metric fit df n m periods of
                         None \<Rightarrow> [] | Some forecast \<Rightarrow> [forecast]"
  have G: "(?G p = []) = (forecast_metric fit df (fst p) (snd p) periods = None)" for p
    by (cases p) (simp split: option.splits)
  have "(generate_all_forecasts fit df periods = None)
        = (concat (map ?G (forecast_pairs df)) = [])"
    by (simp add: generate_all_forecasts_def Let_def)
  also have "\<dots> = (\<forall>p \<in> set (forecast_pairs df). ?G p = [])"
    by simp
  finally show ?thesis by (simp only: G)
qed

lemma run_forecasting_iff:
  "run_forecasting fit (Some store) periods =
     (\<exists>p \<in> set (forecast_pairs (map calculate_utilization_metrics store)).
        forecast_metric fit (map calculate_utilization_metrics store) (fst p) (snd p) periods
          \<noteq> None)"
  using all_forecasts_None_iff[of fit "map calculate_utilization_metrics store" periods]
  by (auto simp: run_forecasting_def load_metrics_def split: option.splits)

lemma concat_concat_map: "concat (concat (map G ps)) = concat (map (\<lambda>p. concat (G p)) ps)"
  by (induction ps) simp_all

lemma all_forecasts_Some:
  assumes "generate_all_forecasts fit df periods = Some fs"
  shows "fs = concat (map (\<lambda>p. case forecast_metric fit df (fst p) (snd p) periods of
                               None \<Rightarrow> [] | Some rows \<Rightarrow> rows) (forecast_pairs df))"
proof -
  let ?G = "\<lambda>(n, m). case forecast_metric fit df n m periods of
                         None \<Rightarrow> [] | Some forecast \<Rightarrow> [forecast]"
  have G: "concat (?G p) = (case forecast_metric fit df (fst p) (snd p) periods of
                               None \<Rightarrow> [] | Some rows \<Rightarrow> rows)" for p
    by (cases p) (simp split: option.splits)
  have "fs = concat (concat (map ?G (forecast_pairs df)))"
    using assms by (simp add: generate_all_forecasts_def Let_def split: if_splits)
  then show ?thesis by (simp only: concat_concat_map G)
qed

lemma upto10: "[0..<10] = [0, 1, 2, 3, 4, 5, 6, 7, 8, 9]"
  by (simp add: upt_rec)

lemma short_rows: "length (rows_of (map calculate_utilization_metrics short_store) ''n1'') = 1"
  by (simp add: rows_of_def short_store_def node_of_def calculate_utilization_metrics_def
      mk_sample_def Let_def)

lemma short_pairs:
  "forecast_pairs (map calculate_utilization_metrics short_store)
   = [(''n1'', ''cpu_utilization''), (''n1'', ''memory_utilization''),
      (''n1'', ''disk_utilization'')]"
  by (simp add: forecast_pairs_def forecast_metrics_def short_store_def node_of_def
      calculate_utilization_metrics_def mk_sample_def Let_def)

lemma idle_cpu_frame:
  "prophet_frame (rows_of (map calculate_utilization_metrics idle_store) ''n1'') cpu_utilization
   = map (\<lambda>i. (3600 * int i, Fin 0)) [0..<10]"
  by (simp add: prophet_frame_def rows_of_def idle_store_def node_of_def
      calculate_utilization_metrics_def mk_sample_def Let_def ratio_pct_def comp_def)

lemma idle_cpu_stats:
  "series_mean (replicate 10 (Fin 0)) = Fin 0" "series_std (replicate 10 (Fin 0)) = Fin 0"
  by (simp_all add: series_mean_def series_std_def dropna_def Let_def fl_sub_def
      eval_nat_numeral)

lemma idle_cpu_prepared:
  "prepare_prophet_data (map calculate_utilization_metrics idle_store) ''n1'' ''cpu_utilization''
   = Some (map (\<lambda>i. (3600 * int i, Fin 0)) [0..<10])"
proof -
  have snd: "map snd (map (\<lambda>i. (3600 * int i, Fin 0)) [0..<10]) = replicate 10 (Fin 0)"
    by (simp add: upto10 eval_nat_numeral)
  have "outlier_filter (map (\<lambda>i. (3600 * int i, Fin 0)) [0..<10])
        = map (\<lambda>i. (3600 * int i, Fin 0)) [0..<10]"
    unfolding outlier_filter_def snd idle_cpu_stats Let_def
    by (simp add: fl_sub_def fl_ge_def)
  moreover have "length (rows_of (map calculate_utilization_metrics idle_store) ''n1'') = 10"
    by (simp add: rows_of_def idle_store_def node_of_def calculate_utilization_metrics_def
        mk_sample_def Let_def comp_def)
  ultimately show ?thesis
    by (simp add: prepare_prophet_data_def metric_column_def idle_cpu_frame Let_def)
qed

lemma idle_hist:
  "historical_data (map (\<lambda>i. (3600 * int i, Fin 0)) [0..<10])
     (map (\<lambda>(ds, y). (ds, Fin 1, Fin 0, Fin 2)) (map (\<lambda>i. (3600 * int i, Fin 0)) [0..<10]))
   = replicate 10 (Fin 0, Fin 1)"
  by (simp add: historical_data_def upto10 eval_nat_numeral)

lemma idle_mape: "mape_of (replicate 10 (Fin 0, Fin 1)) = PInf"
  by (simp add: mape_of_def series_mean_def dropna_def fl_sub_def inf_of_sign_def
      eval_nat_numeral)

lemma forecast_metric_not_None:
  "prepare_prophet_data df n metric = Some pd \<Longrightarrow> fit pd periods = Some fc \<Longrightarrow>
     forecast_metric fit df n metric periods \<noteq> None"
  by (simp add: forecast_metric_def Let_def)

lemma reported_mape_eq:
  assumes "prepare_prophet_data df n metric = Some pd" and "fit pd periods = Some (x # fc)"
    and "historical_data pd (x # fc) \<noteq> []"
  shows "reported_mape fit df n metric periods = Some (mape_of (historical_data pd (x # fc)))"
  using assms by (cases x) (simp add: reported_mape_def forecast_metric_def Let_def)

lemma idle_fit:
  "const_prophet (map (\<lambda>i. (3600 * int i, Fin 0)) [0..<10]) 24
   = Some ((0, Fin 1, Fin 0, Fin 2)
           # map (\<lambda>(ds, y). (ds, Fin 1, Fin 0, Fin 2))
               (map (\<lambda>i. (3600 * int i, Fin 0)) [1..<10]))"
  by (simp add: const_prophet_def upt_rec)

lemma idle_hist':
  "historical_data (map (\<lambda>i. (3600 * int i, Fin 0)) [0..<10])
     ((0, Fin 1, Fin 0, Fin 2)
      # map (\<lambda>(ds, y). (ds, Fin 1, Fin 0, Fin 2))
          (map (\<lambda>i. (3600 * int i, Fin 0)) [1..<10]))
   = replicate 10 (Fin 0, Fin 1)"
  using idle_hist by (simp add: upt_rec)

lemma idle_forecast:
  "forecast_metric const_prophet (map calculate_utilization_metrics idle_store)
     ''n1'' ''cpu_utilization'' 24 \<noteq> None"
  by (rule forecast_metric_not_None[where fit = const_prophet and periods = 24,
        OF idle_cpu_prepared idle_fit])

lemma idle_reported:
  "reported_mape const_prophet (map calculate_utilization_metrics idle_store)
     ''n1'' ''cpu_utilization'' 24 = Some PInf"
proof -
  have "reported_mape const_prophet (map calculate_utilization_metrics idle_store)
          ''n1'' ''cpu_utilization'' 24 = Some (mape_of (replicate 10 (Fin 0, Fin 1)))"
    using reported_mape_eq[where fit = const_prophet and periods = 24,
        OF idle_cpu_prepared idle_fit]
    unfolding idle_hist' by simp
  then show ?thesis by (simp only: idle_mape)
qed

text \<open>
  C8 as the claim states it fails: a pair below the threshold is skipped, but when every
  pair of the store is skipped the run itself reports failure. Here the store holds one
  sample of one node.
\<close>

theorem C8_counterexample:
  "length (rows_of (map calculate_utilization_metrics short_store) ''n1'') < 10
   \<and> forecast_metric const_prophet (map calculate_utilization_metrics short_store)
        ''n1'' ''cpu_utilization'' 24 = None
   \<and> \<not> run_forecasting const_prophet (Some short_store) 24"
proof -
  have none: "prepare_prophet_data (map calculate_utilization_metrics short_store) ''n1'' m = None"
    for m
    by (simp add: prepare_prophet_data_def short_rows)
  show ?thesis
    by (simp add: run_forecasting_iff short_pairs forecast_metric_None[OF none] short_rows)
qed

text \<open>
  C8, amended. A model is fitted for a (node, metric) pair only if the node has at least
  10 rows and at least 5 points remain after dropping missing values and discarding the
  points more than 3 standard deviations from the mean; a pair below either threshold
  yields no forecast. Skipping raises nothing and leaves the other pairs alone: the
  forecast table is the concatenation of the forecasts of the pairs that have one. The
  run succeeds exactly when at least one pair yields a forecast.
\<close>

theorem C8_forecast_thresholds:
  "(forecast_metric fit df n metric periods \<noteq> None \<longrightarrow>
      10 \<le> length (rows_of df n)
      \<and> (\<exists>col. metric_column metric = Some col
            \<and> 5 \<le> length (outlier_filter (prophet_frame (rows_of df n) col))))
   \<and> (length (rows_of df n) < 10 \<longrightarrow> forecast_metric fit df n metric periods = None)
   \<and> (\<forall>col. metric_column metric = Some col
          \<and> length (outlier_filter (prophet_frame (rows_of df n) col)) < 5
        \<longrightarrow> forecast_metric fit df n metric periods = None)
   \<and> (\<forall>fs. generate_all_forecasts fit df periods = Some fs \<longrightarrow>
        fs = concat (map (\<lambda>p. case forecast_metric fit df (fst p) (snd p) periods of
                                None \<Rightarrow> [] | Some rows \<Rightarrow> rows) (forecast_pairs df)))
   \<and> run_forecasting fit (Some store) periods
       = (\<exists>p \<in> set (forecast_pairs (map calculate_utilization_metrics store)).
            forecast_metric fit (map calculate_utilization_metrics store) (fst p) (snd p) periods
              \<noteq> None)"
proof (intro conjI allI impI)
  assume "forecast_metric fit df n metric periods \<noteq> None"
  then obtain pd where "prepare_prophet_data df n metric = Some pd"
    using forecast_metric_Some by fastforce
  then show "10 \<le> length (rows_of df n)"
    and "\<exists>col. metric_column metric = Some col
            \<and> 5 \<le> length (outlier_filter (prophet_frame (rows_of df n) col))"
    unfolding prepare_Some_iff by auto
next
  assume "length (rows_of df n) < 10"
  then show "forecast_metric fit df n metric periods = None"
    by (simp add: forecast_metric_def prepare_prophet_data_def)
next
  fix col
  assume "metric_column metric = Some col
          \<and> length (outlier_filter (prophet_frame (rows_of df n) col)) < 5"
  then show "forecast_metric fit df n metric periods = None"
    by (simp add: forecast_metric_def prepare_prophet_data_def Let_def)
next
  fix fs
  assume "generate_all_forecasts fit df periods = Some fs"
  then show "fs = concat (map (\<lambda>p. case forecast_metric fit df (fst p) (snd p) periods of
                                None \<Rightarrow> [] | Some rows \<Rightarrow> rows) (forecast_pairs df))"
    by (rule all_forecasts_Some)
next
  show "run_forecasting fit (Some store) periods
       = (\<exists>p \<in> set (forecast_pairs (map calculate_utilization_metrics store)).
            forecast_metric fit (map calculate_utilization_metrics store) (fst p) (snd p) periods
              \<noteq> None)"
    by (rule run_forecasting_iff)
qed

lemma cpu_pair_of_node:
  "n \<in> set (map node_of df) \<Longrightarrow> (n, ''cpu_utilization'') \<in> set (forecast_pairs df)"
  by (auto simp: forecast_pairs_def forecast_metrics_def set_unique)

lemma idle_node: "''n1'' \<in> set (map node_of (map calculate_utilization_metrics idle_store))"
  by (simp add: idle_store_def node_of_def calculate_utilization_metrics_def mk_sample_def
      Let_def upto10)

theorem C8_forecast_thresholds_witness:
  "forecast_metric const_prophet (map calculate_utilization_metrics idle_store)
      ''n1'' ''cpu_utilization'' 24 \<noteq> None
   \<and> 10 \<le> length (rows_of (map calculate_utilization_metrics idle_store) ''n1'')
   \<and> length (rows_of (map calculate_utilization_metrics short_store) ''n1'') < 10
   \<and> forecast_metric const_prophet (map calculate_utilization_metrics short_store)
        ''n1'' ''cpu_utilization'' 24 = None
   \<and> run_forecasting const_prophet (Some idle_store) 24"
proof -
  note thm_idle = C8_forecast_thresholds[of const_prophet
      "map calculate_utilization_metrics idle_store" "''n1''" "''cpu_utilization''" 24 idle_store]
  note thm_short = C8_forecast_thresholds[of const_prophet
      "map calculate_utilization_metrics short_store" "''n1''" "''cpu_utilization''" 24 short_store]
  have s: "length (rows_of (map calculate_utilization_metrics short_store) ''n1'') < 10"
    by (simp add: short_rows)
  have "\<exists>p \<in> set (forecast_pairs (map calculate_utilization_metrics idle_store)).
          forecast_metric const_prophet (map calculate_utilization_metrics idle_store)
            (fst p) (snd p) 24 \<noteq> None"
    using cpu_pair_of_node[OF idle_node] idle_forecast by (intro bexI) simp_all
  then have run: "run_forecasting const_prophet (Some idle_store) 24"
    by (simp only: thm_idle[THEN conjunct2, THEN conjunct2, THEN conjunct2, THEN conjunct2])
  show ?thesis
    by (intro conjI idle_forecast s run
        thm_idle[THEN conjunct1, THEN mp, OF idle_forecast, THEN conjunct1]
        thm_short[THEN conjunct2, THEN conjunct1, THEN mp, OF s])
qed

section \<open>Forecasting engine: the MAPE has no guard\<close>

lemma fl_abs_cases: "fl_abs v = NaN \<or> fl_abs v = PInf \<or> (\<exists>a. fl_abs v = Fin a)"
  by (cases v) simp_all

lemma fl_sum_fin_or_pinf:
  "\<forall>v \<in> set xs. v = PInf \<or> (\<exists>a. v = Fin a) \<Longrightarrow>
     (if PInf \<in> set xs then fl_sum xs = PInf else \<exists>a. fl_sum xs = Fin a)"
  by (induction xs) (auto split: if_splits)

lemma series_mean_abs_PInf:
  assumes "PInf \<in> set (map fl_abs vs)"
  shows "series_mean (map fl_abs vs) = PInf"
proof -
  let ?ys = "dropna (map fl_abs vs)"
  have mem: "PInf \<in> set ?ys" using assms by (simp add: dropna_def)
  have rng: "\<forall>v \<in> set ?ys. v = PInf \<or> (\<exists>a. v = Fin a)"
    using fl_abs_cases by (auto simp: dropna_def)
  have "fl_sum ?ys = PInf" using fl_sum_fin_or_pinf[OF rng] mem by simp
  moreover have "?ys \<noteq> []" using mem by auto
  ultimately show ?thesis by (simp add: series_mean_def Let_def)
qed

lemma series_mean_all_fin:
  assumes "xs \<noteq> []" and "\<forall>v \<in> set xs. \<exists>a. v = Fin a"
  shows "\<exists>a. series_mean xs = Fin a"
proof -
  have d: "dropna xs = xs" using assms(2) by (auto simp: dropna_def filter_id_conv)
  have "\<forall>v \<in> set xs. v = PInf \<or> (\<exists>a. v = Fin a)" "PInf \<notin> set xs"
    using assms(2) by auto
  then obtain s where "fl_sum xs = Fin s" using fl_sum_fin_or_pinf[of xs] by auto
  then show ?thesis using assms(1) by (simp add: series_mean_def d Let_def)
qed

lemma mape_zero_actual:
  assumes "(Fin 0, Fin f) \<in> set hist" and "f \<noteq> 0"
  shows "mape_of hist = PInf"
proof -
  have tm: "fl_abs (fl_div (fl_sub (Fin 0) (Fin f)) (Fin 0)) = PInf"
    using assms(2) by (simp add: fl_sub_def inf_of_sign_def)
  have m: "map (\<lambda>(y, f). fl_abs (fl_div (fl_sub y f) y)) hist
           = map fl_abs (map (\<lambda>(y, f). fl_div (fl_sub y f) y) hist)"
    by (simp add: case_prod_unfold)
  have "PInf \<in> set (map fl_abs (map (\<lambda>(y, f). fl_div (fl_sub y f) y) hist))"
    using assms(1) tm by (force simp: image_iff)
  then have "series_mean (map (\<lambda>(y, f). fl_abs (fl_div (fl_sub y f) y)) hist) = PInf"
    unfolding m by (rule series_mean_abs_PInf)
  then show ?thesis by (simp add: mape_of_def inf_of_sign_def)
qed

lemma mape_nonzero_actuals:
  assumes "hist \<noteq> []" and "\<forall>p \<in> set hist. \<exists>a b. p = (Fin a, Fin b) \<and> a \<noteq> 0"
  shows "is_fin (mape_of hist)"
proof -
  have "\<forall>v \<in> set (map (\<lambda>(y, f). fl_abs (fl_div (fl_sub y f) y)) hist). \<exists>a. v = Fin a"
    using assms(2) by (fastforce simp: fl_sub_def)
  moreover have "map (\<lambda>(y, f). fl_abs (fl_div (fl_sub y f) y)) hist \<noteq> []"
    using assms(1) by simp
  ultimately obtain s where "series_mean (map (\<lambda>(y, f). fl_abs (fl_div (fl_sub y f) y)) hist) = Fin s"
    using series_mean_all_fin by blast
  then show ?thesis by (simp add: mape_of_def)
qed

lemma historical_nonempty: "pd \<noteq> [] \<Longrightarrow> historical_data pd fc \<noteq> []"
  by (cases pd) (auto simp: historical_data_def Let_def split: list.splits)

lemma forecast_metric_mape:
  assumes "forecast_metric fit df n metric periods = Some rows" and "r \<in> set rows"
  shows "\<exists>pd fc. prepare_prophet_data df n metric = Some pd \<and> fit pd periods = Some fc
           \<and> fo_mape r = Some (mape_of (historical_data pd fc))"
proof -
  from assms(1) obtain pd fc where pd: "prepare_prophet_data df n metric = Some pd"
    and fc: "fit pd periods = Some fc"
    by (auto simp: forecast_metric_def split: option.splits)
  have "5 \<le> length pd" using pd unfolding prepare_Some_iff by auto
  then have "pd \<noteq> []" by auto
  then have ne: "length (historical_data pd fc) > 0" using historical_nonempty by auto
  have "fo_mape r = Some (mape_of (historical_data pd fc))"
    using assms pd fc ne by (auto simp: forecast_metric_def Let_def)
  with pd fc show ?thesis by blast
qed

text \<open>
  C2 as the claim states it fails: for an idle node (every actual value is 0) and a
  forecast of 1, the MAPE reported with the forecast is +infinity.
\<close>

theorem C2_counterexample:
  "reported_mape const_prophet (map calculate_utilization_metrics idle_store)
     ''n1'' ''cpu_utilization'' 24 = Some PInf"
  by (rule idle_reported)

text \<open>
  C2, amended. The MAPE reported on every forecast row of a pair is
  \<open>mean(|(y - forecast) / y|) * 100\<close> over the in-sample points, with no guard for
  \<open>y = 0\<close>: a point whose actual value is 0 and whose forecast is not 0 makes the reported
  MAPE +infinity. When no actual value is 0 (and actuals and forecasts are finite) the
  MAPE is finite.
\<close>

theorem C2_mape_unguarded:
  "(forecast_metric fit df n metric periods = Some rows \<and> r \<in> set rows \<longrightarrow>
      (\<exists>pd fc. prepare_prophet_data df n metric = Some pd \<and> fit pd periods = Some fc
          \<and> fo_mape r = Some (mape_of (historical_data pd fc))))
   \<and> ((Fin 0, Fin f) \<in> set hist \<and> f \<noteq> 0 \<longrightarrow> mape_of hist = PInf)
   \<and> (hist' \<noteq> [] \<and> (\<forall>p \<in> set hist'. \<exists>a b. p = (Fin a, Fin b) \<and> a \<noteq> 0)
        \<longrightarrow> is_fin (mape_of hist'))"
proof (intro conjI impI)
  assume "forecast_metric fit df n metric periods = Some rows \<and> r \<in> set rows"
  then show "\<exists>pd fc. prepare_prophet_data df n metric = Some pd \<and> fit pd periods = Some fc
          \<and> fo_mape r = Some (mape_of (historical_data pd fc))"
    by (elim conjE) (rule forecast_metric_mape)
next
  assume "(Fin 0, Fin f) \<in> set hist \<and> f \<noteq> 0"
  then show "mape_of hist = PInf" by (elim conjE) (rule mape_zero_actual)
next
  assume "hist' \<noteq> [] \<and> (\<forall>p \<in> set hist'. \<exists>a b. p = (Fin a, Fin b) \<and> a \<noteq> 0)"
  then show "is_fin (mape_of hist')" by (elim conjE) (rule mape_nonzero_actuals)
qed

theorem C2_mape_unguarded_witness:
  "(Fin 0, Fin 1) \<in> set [(Fin 0, Fin 1), (Fin 50, Fin 40)]
   \<and> mape_of [(Fin 0, Fin 1), (Fin 50, Fin 40)] = PInf
   \<and> is_fin (mape_of [(Fin 50, Fin 40)])
   \<and> (\<exists>pd fc. prepare_prophet_data (map calculate_utilization_metrics idle_store)
                    ''n1'' ''cpu_utilization'' = Some pd
          \<and> const_prophet pd 24 = Some fc \<and> mape_of (historical_data pd fc) = PInf)"
proof -
  have a: "(Fin 0, Fin 1) \<in> set [(Fin 0, Fin 1), (Fin 50, Fin 40)] \<and> (1::real) \<noteq> 0"
    by simp
  have b: "[(Fin 50, Fin 40)] \<noteq> []
           \<and> (\<forall>p \<in> set [(Fin 50, Fin 40)]. \<exists>a b. p = (Fin a, Fin b) \<and> a \<noteq> 0)"
    by simp
  note t = C2_mape_unguarded[where hist = "[(Fin 0, Fin 1), (Fin 50, Fin 40)]" and f = 1
      and hist' = "[(Fin 50, Fin 40)]"]
  have c: "mape_of [(Fin 0, Fin 1), (Fin 50, Fin 40)] = PInf"
    by (rule t[THEN conjunct2, THEN conjunct1, THEN mp, OF a])
  have d: "is_fin (mape_of [(Fin 50, Fin 40)])"
    by (rule t[THEN conjunct2, THEN conjunct2, THEN mp, OF b])
  obtain r rs where rows: "forecast_metric const_prophet
        (map calculate_utilization_metrics idle_store) ''n1'' ''cpu_utilization'' 24 = Some (r # rs)"
    and mape: "fo_mape r = Some PInf"
    using idle_reported by (auto simp: reported_mape_def split: option.splits list.splits)
  have "forecast_metric const_prophet (map calculate_utilization_metrics idle_store)
          ''n1'' ''cpu_utilization'' 24 = Some (r # rs) \<and> r \<in> set (r # rs)"
    using rows by simp
  from C2_mape_unguarded[THEN conjunct1, THEN mp, OF this]
  obtain pd fc where "prepare_prophet_data (map calculate_utilization_metrics idle_store)
                    ''n1'' ''cpu_utilization'' = Some pd"
    and "const_prophet pd 24 = Some fc"
    and "fo_mape r = Some (mape_of (historical_data pd fc))"
    by blast
  then have e: "\<exists>pd fc. prepare_prophet_data (map calculate_utilization_metrics idle_store)
                    ''n1'' ''cpu_utilization'' = Some pd
          \<and> const_prophet pd 24 = Some fc \<and> mape_of (historical_data pd fc) = PInf"
    using mape by auto
  show ?thesis by (intro conjI a[THEN conjunct1] c d e)
qed

section \<open>Anomaly detector: constant series\<close>

lemma set_window_at: "set (window_at w xs i) \<subseteq> set xs"
  unfolding window_at_def
  by (meson set_drop_subset set_take_subset subset_trans)

lemma fl_sum_replicate_Fin: "fl_sum (replicate k (Fin a)) = Fin (real k * a)"
  by (induction k) (simp_all add: algebra_simps)

lemma series_mean_const: "k > 0 \<Longrightarrow> series_mean (replicate k (Fin a)) = Fin a"
  by (simp add: series_mean_def dropna_def fl_sum_replicate_Fin)

lemma series_std_const:
  "series_std (replicate k (Fin a)) = (if k \<le> 1 then NaN else Fin 0)"
proof (cases "k \<le> 1")
  case True
  then show ?thesis by (simp add: series_std_def dropna_def)
next
  case False
  then have k: "real k \<noteq> 0" "real k - 1 \<noteq> 0" by auto
  show ?thesis
    using False k
    by (simp add: series_std_def dropna_def Let_def fl_sub_def fl_sum_replicate_Fin)
qed

lemma series_mean_all_NaN: "series_mean (replicate k NaN) = NaN"
  by (simp add: series_mean_def dropna_def)

lemma not_anomaly_NaN_mean: "\<not> is_anomaly v NaN s"
  by (cases v) (simp_all add: is_anomaly_def fl_greater_def fl_sub_def)

lemma not_anomaly_const: "\<not> is_anomaly (Fin a) (Fin a) (Fin 0)"
  by (simp add: is_anomaly_def fl_greater_def fl_sub_def)

lemma not_anomaly_NaN_std: "\<not> is_anomaly (Fin a) (Fin b) NaN"
  by (simp add: is_anomaly_def fl_greater_def fl_sub_def)

lemma const_window_no_anomaly:
  assumes "\<forall>v \<in> set ys. v = c"
  shows "\<not> is_anomaly c (series_mean (map rolling_prep ys)) (series_std (map rolling_prep ys))"
proof -
  have ys: "ys = replicate (length ys) c"
    using assms by (simp add: replicate_length_same)
  show ?thesis
  proof (cases c)
    case (Fin a)
    have p: "map rolling_prep ys = replicate (length ys) (Fin a)"
      by (subst ys) (simp add: Fin)
    show ?thesis
    proof (cases "length ys = 0")
      case True
      then show ?thesis by (simp add: series_mean_def dropna_def not_anomaly_NaN_mean)
    next
      case False
      then have m: "series_mean (map rolling_prep ys) = Fin a"
        unfolding p by (simp add: series_mean_const)
      have s: "series_std (map rolling_prep ys) = (if length ys \<le> 1 then NaN else Fin 0)"
        unfolding p by (rule series_std_const)
      show ?thesis
        by (simp add: m s Fin not_anomaly_const not_anomaly_NaN_std)
    qed
  next
    case PInf
    have "map rolling_prep ys = replicate (length ys) NaN"
      by (subst ys) (simp add: PInf)
    then show ?thesis by (simp add: series_mean_all_NaN not_anomaly_NaN_mean)
  next
    case NInf
    have "map rolling_prep ys = replicate (length ys) NaN"
      by (subst ys) (simp add: NInf)
    then show ?thesis by (simp add: series_mean_all_NaN not_anomaly_NaN_mean)
  next
    case NaN
    have "map rolling_prep ys = replicate (length ys) NaN"
      by (subst ys) (simp add: NaN)
    then show ?thesis by (simp add: series_mean_all_NaN not_anomaly_NaN_mean)
  qed
qed

lemma const_rolling_no_anomaly:
  assumes "\<forall>v \<in> set xs. v = c" and "i < length xs"
  shows "\<not> is_anomaly (xs ! i) (rolling_mean w xs ! i) (rolling_std w xs ! i)"
proof -
  have "\<forall>v \<in> set (window_at w xs i). v = c"
    using assms(1) set_window_at[of w xs i] by auto
  then have "\<not> is_anomaly c (series_mean (map rolling_prep (window_at w xs i)))
                 (series_std (map rolling_prep (window_at w xs i)))"
    by (rule const_window_no_anomaly)
  moreover have "xs ! i = c" using assms by simp
  ultimately show ?thesis
    using assms(2) by (simp add: rolling_mean_def rolling_std_def)
qed

lemma length_rolling: "length (rolling_mean w xs) = length xs" "length (rolling_std w xs) = length xs"
  by (simp_all add: rolling_mean_def rolling_std_def)

lemma metric_anomalies_const:
  assumes "\<forall>r \<in> set node_data. col r = c"
  shows "metric_anomalies n metric node_data col = []"
proof -
  let ?xs = "map col node_data"
  let ?w = "min 24 (length node_data)"
  have c: "\<forall>v \<in> set ?xs. v = c" using assms by auto
  have "\<not> is_anomaly (col r) m s"
    if "(r, m, s) \<in> set (zip node_data (zip (rolling_mean ?w ?xs) (rolling_std ?w ?xs)))"
    for r m s
  proof -
    from that obtain i where i: "i < length node_data" and r: "node_data ! i = r"
      and m: "rolling_mean ?w ?xs ! i = m" and s: "rolling_std ?w ?xs ! i = s"
      by (auto simp: in_set_zip length_rolling)
    have "\<not> is_anomaly (?xs ! i) (rolling_mean ?w ?xs ! i) (rolling_std ?w ?xs ! i)"
      using const_rolling_no_anomaly[OF c, of i ?w] i by simp
    then show ?thesis using i r m s by simp
  qed
  then have "filter (\<lambda>(r, m, s). is_anomaly (col r) m s)
               (zip node_data (zip (rolling_mean ?w ?xs) (rolling_std ?w ?xs))) = []"
    by (auto simp: filter_empty_conv)
  then show ?thesis by (simp add: metric_anomalies_def Let_def)
qed

lemma node_anomalies_node: "a \<in> set (node_anomalies df n) \<Longrightarrow> a_node a = n"
  by (auto simp: node_anomalies_def metric_anomalies_def anomaly_of_def Let_def)

lemma anomalies_of_node:
  "filter (\<lambda>a. a_node a = n) (generate_anomaly_detection df)
   = (if n \<in> set (map node_of df) then node_anomalies df n else [])"
  unfolding generate_anomaly_detection_def
  using filter_concat_keyed[where ks = "unique (map node_of df)" and g = "node_anomalies df"
      and key = a_node and k = n, OF distinct_unique node_anomalies_node]
  by (simp add: set_unique)

lemma steady_rows:
  "rows_of steady_df ''n1'' = map calculate_utilization_metrics
     [mk_sample 0 ''n1'' 4 8 100 1000 50 100,
      mk_sample 3600 ''n1'' 4 8 100 1000 50 100,
      mk_sample 7200 ''n1'' 4 8 100 1000 50 100]"
  by (simp add: rows_of_def steady_df_def node_of_def calculate_utilization_metrics_def
      mk_sample_def Let_def)

lemma steady_values:
  "map cpu_utilization (rows_of steady_df ''n1'') = [Fin 50, Fin 50, Fin 50]"
  "map memory_utilization (rows_of steady_df ''n1'') = [Fin 10, Fin 10, Fin 10]"
  unfolding steady_rows
  by (simp_all add: calculate_utilization_metrics_def mk_sample_def Let_def ratio_pct_def)

text \<open>
  C5. When the CPU utilization and the memory utilization of a node are the same in
  every one of its samples (two or more), no row of the node lies outside its rolling
  mean +- 2 rolling std band, for either metric, and the anomaly list holds no record
  of that node.
\<close>

theorem C5_constant_series_no_anomalies:
  assumes "2 \<le> length (rows_of df n)"
    and "\<forall>r \<in> set (rows_of df n). cpu_utilization r = c \<and> memory_utilization r = d"
  shows "filter (\<lambda>a. a_node a = n) (generate_anomaly_detection df) = []
     \<and> (\<forall>i < length (rows_of df n).
           \<not> is_anomaly (map cpu_utilization (rows_of df n) ! i)
               (rolling_mean (min 24 (length (rows_of df n)))
                  (map cpu_utilization (rows_of df n)) ! i)
               (rolling_std (min 24 (length (rows_of df n)))
                  (map cpu_utilization (rows_of df n)) ! i)
         \<and> \<not> is_anomaly (map memory_utilization (rows_of df n) ! i)
               (rolling_mean (min 24 (length (rows_of df n)))
                  (map memory_utilization (rows_of df n)) ! i)
               (rolling_std (min 24 (length (rows_of df n)))
                  (map memory_utilization (rows_of df n)) ! i))"
proof (intro conjI allI impI)
  have cpu: "\<forall>r \<in> set (rows_of df n). cpu_utilization r = c"
    and mem: "\<forall>r \<in> set (rows_of df n). memory_utilization r = d"
    using assms(2) by auto
  have "node_anomalies df n = []"
    by (simp add: node_anomalies_def Let_def metric_anomalies_const[OF cpu]
        metric_anomalies_const[OF mem])
  then show "filter (\<lambda>a. a_node a = n) (generate_anomaly_detection df) = []"
    by (simp add: anomalies_of_node)
next
  fix i assume i: "i < length (rows_of df n)"
  have k: "\<forall>v \<in> set (map cpu_utilization (rows_of df n)). v = c"
    using assms(2) by auto
  show "\<not> is_anomaly (map cpu_utilization (rows_of df n) ! i)
               (rolling_mean (min 24 (length (rows_of df n)))
                  (map cpu_utilization (rows_of df n)) ! i)
               (rolling_std (min 24 (length (rows_of df n)))
                  (map cpu_utilization (rows_of df n)) ! i)"
    using i by (intro const_rolling_no_anomaly[OF k]) simp
next
  fix i assume i: "i < length (rows_of df n)"
  have k: "\<forall>v \<in> set (map memory_utilization (rows_of df n)). v = d"
    using assms(2) by auto
  show "\<not> is_anomaly (map memory_utilization (rows_of df n) ! i)
               (rolling_mean (min 24 (length (rows_of df n)))
                  (map memory_utilization (rows_of df n)) ! i)
               (rolling_std (min 24 (length (rows_of df n)))
                  (map memory_utilization (rows_of df n)) ! i)"
    using i by (intro const_rolling_no_anomaly[OF k]) simp
qed

theorem C5_constant_series_no_anomalies_witness:
  "length (rows_of steady_df ''n1'') = 3
   \<and> map cpu_utilization (rows_of steady_df ''n1'') = [Fin 50, Fin 50, Fin 50]
   \<and> map memory_utilization (rows_of steady_df ''n1'') = [Fin 10, Fin 10, Fin 10]
   \<and> filter (\<lambda>a. a_node a = ''n1'') (generate_anomaly_detection steady_df) = []"
proof -
  have len: "length (rows_of steady_df ''n1'') = 3"
    by (simp add: steady_rows)
  have l2: "2 \<le> length (rows_of steady_df ''n1'')"
    by (simp add: len)
  have const: "\<forall>r \<in> set (rows_of steady_df ''n1'').
                 cpu_utilization r = Fin 50 \<and> memory_utilization r = Fin 10"
    unfolding steady_rows
    by (simp add: calculate_utilization_metrics_def mk_sample_def Let_def ratio_pct_def)
  have none: "filter (\<lambda>a. a_node a = ''n1'') (generate_anomaly_detection steady_df) = []"
    by (rule C5_constant_series_no_anomalies[OF l2 const, THEN conjunct1])
  show ?thesis by (intro conjI len steady_values none)
qed

text \<open>The detector does report a spike: five idle samples, then one at 100 percent.\<close>

lemma upto5: "[0..<5] = [0, 1, 2, 3, 4]"
  by (simp add: upt_rec)

lemma spike_cpu:
  "map cpu_utilization spike_df = [Fin 0, Fin 0, Fin 0, Fin 0, Fin 0, Fin 100]"
  by (simp add: spike_df_def calculate_utilization_metrics_def mk_sample_def Let_def
      ratio_pct_def upto5)

lemma spike_mean:
  "series_mean (map rolling_prep [Fin 0, Fin 0, Fin 0, Fin 0, Fin 0, Fin 100]) = Fin (50 / 3)"
  by (simp add: series_mean_def dropna_def)

lemma spike_std:
  "series_std (map rolling_prep [Fin 0, Fin 0, Fin 0, Fin 0, Fin 0, Fin 100])
   = Fin (sqrt (5000 / 3))"
  by (simp add: series_std_def dropna_def Let_def fl_sub_def)

lemma spike_is_anomaly: "is_anomaly (Fin 100) (Fin (50 / 3)) (Fin (sqrt (5000 / 3)))"
proof -
  have "sqrt (5000 / 3) < 125 / (3::real)"
    by (rule real_less_lsqrt) (simp_all add: power2_eq_square)
  then show ?thesis by (simp add: is_anomaly_def fl_greater_def)
qed

lemma rolling_nth:
  assumes "i < length xs"
  shows "rolling_mean w xs ! i = series_mean (map rolling_prep (window_at w xs i))"
    and "rolling_std w xs ! i = series_std (map rolling_prep (window_at w xs i))"
  using assms by (simp_all add: rolling_mean_def rolling_std_def)

lemma spike_last:
  "is_anomaly (map cpu_utilization spike_df ! 5)
     (rolling_mean (min 24 (length spike_df)) (map cpu_utilization spike_df) ! 5)
     (rolling_std (min 24 (length spike_df)) (map cpu_utilization spike_df) ! 5)"
proof -
  have len: "length spike_df = 6" by (simp add: spike_df_def)
  have w: "window_at 6 [Fin 0, Fin 0, Fin 0, Fin 0, Fin 0, Fin 100] 5
           = [Fin 0, Fin 0, Fin 0, Fin 0, Fin 0, Fin 100]"
    by (simp add: window_at_def)
  have m: "rolling_mean 6 [Fin 0, Fin 0, Fin 0, Fin 0, Fin 0, Fin 100] ! 5 = Fin (50 / 3)"
    by (subst rolling_nth(1)) (simp_all only: w spike_mean, simp)
  have s: "rolling_std 6 [Fin 0, Fin 0, Fin 0, Fin 0, Fin 0, Fin 100] ! 5
           = Fin (sqrt (5000 / 3))"
    by (subst rolling_nth(2)) (simp_all only: w spike_std, simp)
  show ?thesis
    unfolding spike_cpu len by (simp add: m s spike_is_anomaly)
qed

section \<open>Trend estimator: which nodes get an entry\<close>

lemma resample_node_node: "r \<in> set (resample_node df n) \<Longrightarrow> h_node r = n"
  by (auto simp: resample_node_def bucket_of_def Let_def)

lemma node_hourly_eq:
  "node_hourly df n = (if n \<in> set (map node_of df) then resample_node df n else [])"
  unfolding node_hourly_def df_hourly_def
  using filter_concat_keyed[where ks = "group_keys df" and g = "resample_node df"
      and key = h_node and k = n, OF distinct_group_keys resample_node_node]
  by (simp add: set_group_keys)

lemma trend_step_other:
  "m \<noteq> n \<Longrightarrow> trend_step fit hr trends m n = trends n"
  by (simp add: trend_step_def Let_def)

lemma foldl_trend_step_notin:
  "n \<notin> set ns \<Longrightarrow> foldl (trend_step fit hr) trends ns n = trends n"
  by (induction ns arbitrary: trends) (auto simp: trend_step_other)

lemma foldl_trend_step_in:
  assumes "distinct ns" and "n \<in> set ns"
  shows "foldl (trend_step fit hr) trends ns n = trend_step fit hr trends n n"
  using assms
proof (induction ns arbitrary: trends)
  case Nil
  then show ?case by simp
next
  case (Cons a ns)
  show ?case
  proof (cases "a = n")
    case True
    then have "n \<notin> set ns" using Cons.prems(1) by simp
    then show ?thesis using True by (simp add: foldl_trend_step_notin)
  next
    case False
    then have "n \<in> set ns" using Cons.prems(2) by simp
    then have "foldl (trend_step fit hr) (trend_step fit hr trends a) ns n
               = trend_step fit hr (trend_step fit hr trends a) n n"
      using Cons.IH Cons.prems(1) by simp
    also have "\<dots> = trend_step fit hr trends n n"
      using False by (simp add: trend_step_def Let_def)
    finally show ?thesis by simp
  qed
qed

lemma trends_entry:
  "generate_time_series_analysis fit df n =
     (if n \<in> set (map node_of df) \<and> length (node_hourly df n) > 1
      then Some \<lparr> cpu_trend = fit (arange (length (node_hourly df n)))
                                 (map fillna0 (map h_cpu_utilization (node_hourly df n))),
                  memory_trend = fit (arange (length (node_hourly df n)))
                                 (map fillna0 (map h_memory_utilization (node_hourly df n))),
                  disk_trend = fit (arange (length (node_hourly df n)))
                                 (map fillna0 (map h_disk_utilization (node_hourly df n))),
                  data_points = length (node_hourly df n) \<rparr>
      else None)"
proof (cases "n \<in> set (map node_of df)")
  case False
  then have "n \<notin> set (unique (map node_of df))" by (simp add: set_unique)
  then show ?thesis
    using False unfolding generate_time_series_analysis_def
    by (simp add: foldl_trend_step_notin)
next
  case True
  then have "n \<in> set (unique (map node_of df))" by (simp add: set_unique)
  then have "generate_time_series_analysis fit df n
             = trend_step fit (df_hourly df) Map.empty n n"
    unfolding generate_time_series_analysis_def
    by (rule foldl_trend_step_in[OF distinct_unique])
  then show ?thesis
    using True by (simp add: trend_step_def Let_def node_hourly_def)
qed

lemma gap_rows:
  "rows_of gap_df ''n1'' = map calculate_utilization_metrics
     [mk_sample 0 ''n1'' 1 10 100 1000 50 100, mk_sample 7200 ''n1'' 3 10 100 1000 50 100]"
  "rows_of gap_df ''n2'' = map calculate_utilization_metrics
     [mk_sample 600 ''n2'' 1 10 100 1000 50 100, mk_sample 1200 ''n2'' 2 10 100 1000 50 100]"
  by (simp_all add: rows_of_def gap_df_def node_of_def calculate_utilization_metrics_def
      mk_sample_def Let_def)

lemma gap_nodes: "''n1'' \<in> set (map node_of gap_df)" "''n2'' \<in> set (map node_of gap_df)"
  by (simp_all add: gap_df_def node_of_def calculate_utilization_metrics_def
      mk_sample_def Let_def)

lemma gap_hours: "hours_of gap_df ''n1'' = [0, 1, 2]" "hours_of gap_df ''n2'' = [0]"
  unfolding hours_of_def gap_rows
  by (simp_all add: hour_of_def calculate_utilization_metrics_def mk_sample_def Let_def
      upto_rec1)

lemma gap_lengths: "length (node_hourly gap_df ''n1'') = 3" "length (node_hourly gap_df ''n2'') = 1"
  using gap_nodes by (simp_all add: node_hourly_eq resample_node_def gap_hours)

text \<open>The number of hourly rows of a node: the hours from its first to its last sample.\<close>

lemma length_node_hourly:
  "n \<in> set (map node_of df) \<Longrightarrow>
     length (node_hourly df n)
     = nat (Max (set (map hour_of (rows_of df n))) - Min (set (map hour_of (rows_of df n))) + 1)"
  by (simp add: node_hourly_eq resample_node_def hours_of_def Let_def)

text \<open>
  C9. A node whose hourly series, as selected from the resampled frame, has fewer than
  two rows has no entry in the trend map; a node whose hourly series has two or more rows
  has an entry, holding the three fitted slopes and the number of hourly rows.
\<close>

theorem C9_trend_entries:
  "(length (node_hourly df n) < 2 \<longrightarrow> generate_time_series_analysis fit df n = None)
   \<and> (2 \<le> length (node_hourly df n) \<longrightarrow>
        (\<exists>t. generate_time_series_analysis fit df n = Some t
           \<and> cpu_trend t = fit (arange (length (node_hourly df n)))
                             (map fillna0 (map h_cpu_utilization (node_hourly df n)))
           \<and> memory_trend t = fit (arange (length (node_hourly df n)))
                             (map fillna0 (map h_memory_utilization (node_hourly df n)))
           \<and> disk_trend t = fit (arange (length (node_hourly df n)))
                             (map fillna0 (map h_disk_utilization (node_hourly df n)))
           \<and> data_points t = length (node_hourly df n)))"
proof (intro conjI impI)
  assume "length (node_hourly df n) < 2"
  then show "generate_time_series_analysis fit df n = None"
    by (simp add: trends_entry)
next
  assume l: "2 \<le> length (node_hourly df n)"
  then have "node_hourly df n \<noteq> []" by auto
  then have "n \<in> set (map node_of df)"
    by (simp add: node_hourly_eq split: if_splits)
  then show "\<exists>t. generate_time_series_analysis fit df n = Some t
           \<and> cpu_trend t = fit (arange (length (node_hourly df n)))
                             (map fillna0 (map h_cpu_utilization (node_hourly df n)))
           \<and> memory_trend t = fit (arange (length (node_hourly df n)))
                             (map fillna0 (map h_memory_utilization (node_hourly df n)))
           \<and> disk_trend t = fit (arange (length (node_hourly df n)))
                             (map fillna0 (map h_disk_utilization (node_hourly df n)))
           \<and> data_points t = length (node_hourly df n)"
    using l by (subst trends_entry) simp
qed

theorem C9_trend_entries_witness:
  "length (node_hourly gap_df ''n2'') = 1
   \<and> generate_time_series_analysis ols_slope gap_df ''n2'' = None
   \<and> length (node_hourly gap_df ''n1'') = 3
   \<and> map_option data_points (generate_time_series_analysis ols_slope gap_df ''n1'') = Some 3"
proof -
  note t = C9_trend_entries[where fit = ols_slope and df = gap_df]
  have a: "length (node_hourly gap_df ''n2'') < 2" by (simp add: gap_lengths)
  have b: "2 \<le> length (node_hourly gap_df ''n1'')" by (simp add: gap_lengths)
  have none: "generate_time_series_analysis ols_slope gap_df ''n2'' = None"
    by (rule t[THEN conjunct1, THEN mp, OF a])
  obtain tr where "generate_time_series_analysis ols_slope gap_df ''n1'' = Some tr"
    and "data_points tr = length (node_hourly gap_df ''n1'')"
    using t[THEN conjunct2, THEN mp, OF b] by blast
  then have some: "map_option data_points (generate_time_series_analysis ols_slope gap_df ''n1'')
                   = Some 3"
    by (simp add: gap_lengths)
  show ?thesis by (intro conjI gap_lengths none some)
qed

section \<open>Trend estimator: hours without samples\<close>

lemma series_mean_Nil: "series_mean [] = NaN"
  by (simp add: series_mean_def dropna_def)

lemma filled_columns:
  "map fillna0 (map h_cpu_utilization (resample_node df n)) = gap_filled df n cpu_utilization"
  "map fillna0 (map h_memory_utilization (resample_node df n))
   = gap_filled df n memory_utilization"
  "map fillna0 (map h_disk_utilization (resample_node df n)) = gap_filled df n disk_utilization"
  by (simp_all add: resample_node_def gap_filled_def bucket_of_def Let_def series_mean_Nil)

lemma length_resample_node: "length (resample_node df n) = length (hours_of df n)"
  by (simp add: resample_node_def)

lemma gap_needs_three_hours:
  assumes "n \<in> set (map node_of df)" and "h \<in> set (hours_of df n)"
    and "bucket_rows df n h = []"
  shows "3 \<le> length (hours_of df n)"
proof -
  let ?hs = "map hour_of (rows_of df n)"
  have ne: "set ?hs \<noteq> {}" using assms(1) by (auto simp: rows_of_def filter_empty_conv)
  have fin: "finite (set ?hs)" by simp
  have "Min (set ?hs) \<in> set ?hs" using Min_in[OF fin ne] .
  then have lo: "bucket_rows df n (Min (set ?hs)) \<noteq> []"
    by (auto simp: bucket_rows_def filter_empty_conv)
  have "Max (set ?hs) \<in> set ?hs" using Max_in[OF fin ne] .
  then have hi: "bucket_rows df n (Max (set ?hs)) \<noteq> []"
    by (auto simp: bucket_rows_def filter_empty_conv)
  have "Min (set ?hs) \<le> h" "h \<le> Max (set ?hs)"
    using assms(2) by (simp_all add: hours_of_def Let_def)
  moreover have "h \<noteq> Min (set ?hs)" "h \<noteq> Max (set ?hs)"
    using lo hi assms(3) by auto
  ultimately have "Max (set ?hs) - Min (set ?hs) \<ge> 2" by linarith
  then show ?thesis by (simp add: hours_of_def Let_def)
qed

text \<open>
  C10. When an hour between a node's first and last sample holds no sample of the node,
  the node still gets a trend entry; the hour keeps its place in the fitted series, with
  the value 0 for each of the three utilizations, and it is counted in \<open>data_points\<close>:
  the slopes are those of the gap-filled series.
\<close>

theorem C10_gap_filled_with_zero:
  assumes "n \<in> set (map node_of df)" and "h \<in> set (hours_of df n)"
    and "bucket_rows df n h = []"
  shows "\<exists>t i. generate_time_series_analysis fit df n = Some t
      \<and> cpu_trend t = fit (arange (length (hours_of df n))) (gap_filled df n cpu_utilization)
      \<and> memory_trend t
          = fit (arange (length (hours_of df n))) (gap_filled df n memory_utilization)
      \<and> disk_trend t = fit (arange (length (hours_of df n))) (gap_filled df n disk_utilization)
      \<and> data_points t = length (hours_of df n)
      \<and> length (gap_filled df n cpu_utilization) = length (hours_of df n)
      \<and> i < length (hours_of df n) \<and> hours_of df n ! i = h
      \<and> gap_filled df n cpu_utilization ! i = Fin 0
      \<and> gap_filled df n memory_utilization ! i = Fin 0
      \<and> gap_filled df n disk_utilization ! i = Fin 0"
proof -
  have nh: "node_hourly df n = resample_node df n"
    using assms(1) by (simp add: node_hourly_eq)
  have len: "1 < length (resample_node df n)"
    using gap_needs_three_hours[OF assms] by (simp add: length_resample_node)
  obtain i where i: "i < length (hours_of df n)" "hours_of df n ! i = h"
    using assms(2) by (auto simp: in_set_conv_nth)
  have z: "gap_filled df n col ! i = Fin 0" for col
    using i assms(3) by (simp add: gap_filled_def)
  let ?t = "\<lparr> cpu_trend = fit (arange (length (hours_of df n)))
                               (gap_filled df n cpu_utilization),
               memory_trend = fit (arange (length (hours_of df n)))
                               (gap_filled df n memory_utilization),
               disk_trend = fit (arange (length (hours_of df n)))
                               (gap_filled df n disk_utilization),
               data_points = length (hours_of df n) \<rparr>"
  have "generate_time_series_analysis fit df n = Some ?t"
    using assms(1) len
    by (subst trends_entry) (simp add: nh filled_columns length_resample_node del: map_map)
  moreover have "length (gap_filled df n cpu_utilization) = length (hours_of df n)"
    by (simp add: gap_filled_def)
  ultimately show ?thesis using i z by (intro exI[of _ ?t] exI[of _ i]) simp
qed

lemma gap_bucket: "bucket_rows gap_df ''n1'' 1 = []"
  unfolding bucket_rows_def gap_rows
  by (simp add: hour_of_def calculate_utilization_metrics_def mk_sample_def Let_def)

lemma gap_series: "gap_filled gap_df ''n1'' cpu_utilization = [Fin 10, Fin 0, Fin 30]"
  unfolding gap_filled_def gap_hours bucket_rows_def gap_rows
  by (simp add: hour_of_def calculate_utilization_metrics_def mk_sample_def Let_def
      ratio_pct_def series_mean_def dropna_def)

lemma gap_slopes:
  "ols_slope (arange 3) [Fin 10, Fin 0, Fin 30] = Fin 10"
  "ols_slope (arange 2) [Fin 10, Fin 30] = Fin 20"
  by (simp_all add: ols_slope_def arange_def Let_def fl_sub_def upt_rec)

theorem C10_gap_filled_with_zero_witness:
  "''n1'' \<in> set (map node_of gap_df)
   \<and> hours_of gap_df ''n1'' = [0, 1, 2]
   \<and> bucket_rows gap_df ''n1'' 1 = []
   \<and> gap_filled gap_df ''n1'' cpu_utilization = [Fin 10, Fin 0, Fin 30]
   \<and> map_option cpu_trend (generate_time_series_analysis ols_slope gap_df ''n1'')
       = Some (Fin 10)
   \<and> map_option data_points (generate_time_series_analysis ols_slope gap_df ''n1'') = Some 3
   \<and> ols_slope (arange 2) [Fin 10, Fin 30] = Fin 20"
proof -
  have h: "1 \<in> set (hours_of gap_df ''n1'')" by (simp add: gap_hours)
  obtain t where t: "generate_time_series_analysis ols_slope gap_df ''n1'' = Some t"
    and c: "cpu_trend t = ols_slope (arange (length (hours_of gap_df ''n1'')))
                            (gap_filled gap_df ''n1'' cpu_utilization)"
    and d: "data_points t = length (hours_of gap_df ''n1'')"
    using C10_gap_filled_with_zero[OF gap_nodes(1) h gap_bucket, where fit = ols_slope]
    by blast
  have len3: "length (hours_of gap_df ''n1'') = 3" by (simp add: gap_hours(1))
  have "cpu_trend t = Fin 10"
    using c unfolding len3 gap_series gap_slopes(1) .
  then have slope: "map_option cpu_trend (generate_time_series_analysis ols_slope gap_df ''n1'')
               = Some (Fin 10)"
    unfolding t by simp
  have pts: "map_option data_points (generate_time_series_analysis ols_slope gap_df ''n1'')
             = Some 3"
    unfolding t using d by (simp add: gap_hours(1))
  show ?thesis
    by (intro conjI gap_nodes(1) gap_hours(1) gap_bucket gap_series slope pts gap_slopes(2))
qed

end
